theory Spec2Isabelle
  imports Main "HOL-Library.Sublist"
begin

section \<open>JavaScript strings\<close>

text \<open>
  A JavaScript string is modelled as a \<^typ>\<open>string\<close>, one \<^typ>\<open>char\<close> per code unit.
  A \<^typ>\<open>char\<close> has 256 values, so the strings of the model are those whose code units
  are below 256 (U+0000 to U+00FF). All literals of the program that the model compares
  against are ASCII. The emoji of the message templates are written as ASCII short
  codes (\<open>:x:\<close>, \<open>:wrench:\<close>, ...).
\<close>

definition nl :: string where
  "nl = [CHR 0x0A]"

text \<open>
  \<open>String.prototype.toLowerCase\<close> on these code units: \<open>A..Z\<close> (65 to 90) and the capital
  letters U+00C0 to U+00DE, the multiplication sign U+00D7 apart, are shifted by 32.
\<close>

definition toLowerCase_char :: "char \<Rightarrow> char" where
  "toLowerCase_char c =
     (let n = (of_char c :: nat) in
      if (65 \<le> n \<and> n \<le> 90) \<or> (192 \<le> n \<and> n \<le> 222 \<and> n \<noteq> 215) then char_of (n + 32) else c)"

definition toLowerCase :: "string \<Rightarrow> string" where
  "toLowerCase s = map toLowerCase_char s"

text \<open>\<open>String.prototype.includes\<close>: the argument occurs as a contiguous run.\<close>

fun str_includes :: "string \<Rightarrow> string \<Rightarrow> bool" where
  "str_includes [] pat = (pat = [])"
| "str_includes (c # cs) pat = (prefix pat (c # cs) \<or> str_includes cs pat)"

section \<open>Trigger parser: \<open>FixBot.parseFixRequest\<close>\<close>

text \<open>
  The returned object \<open>{ shouldFix, type, scope }\<close>; \<open>type\<close> and \<open>scope\<close> are absent
  (\<open>None\<close>) in \<open>{ shouldFix: false }\<close>. The intents of the specification are
  \<open>shouldFix = false\<close> (none), type \<open>specific\<close> (targeted) and type \<open>general\<close> (blanket).
\<close>

record fixRequest =
  shouldFix :: bool
  type :: "string option"
  scope :: "string option"

definition parseFixRequest :: "string \<Rightarrow> fixRequest" where
  "parseFixRequest commentBody =
     (let normalizedComment = toLowerCase commentBody in
      if \<not> str_includes normalizedComment ''@fixbot'' then
        \<lparr>shouldFix = False, type = None, scope = None\<rparr>
      else if str_includes normalizedComment ''apply'' \<or> str_includes normalizedComment ''fix'' then
        (if str_includes normalizedComment ''all'' then
           \<lparr>shouldFix = True, type = Some ''general'', scope = Some ''all''\<rparr>
         else
           \<lparr>shouldFix = True, type = Some ''specific'', scope = Some ''targeted''\<rparr>)
      else
        \<lparr>shouldFix = True, type = Some ''general'', scope = Some ''suggested''\<rparr>)"

section \<open>Data model\<close>

text \<open>
  The objects of the program, as records. A field that JavaScript may leave
  \<open>undefined\<close> or \<open>null\<close> is an \<open>option\<close>. An issue carries a \<open>filename\<close> only
  when it comes from \<open>extractIssuesFromComments\<close>; the issues of an analysis have none.
  The result of an analysis is what \<open>JSON.parse\<close> returns, and the program does not
  validate it: \<open>issues\<close> is \<open>None\<close> when the parsed object has no such property or has
  \<open>null\<close> there, and reading \<open>analysis.issues.length\<close> then raises a TypeError. When the
  property is present it is taken to be an array of issue objects with the fields of
  the schema the prompt asks for, and the other three properties to be as in the schema.
\<close>

record issue =
  type :: string
  severity :: string
  line :: "nat option"
  description :: string
  suggestion :: string
  filename :: "string option"

record analysis =
  summary :: string
  issues :: "issue list option"
  overallRating :: string
  recommendations :: "string list"

record changedFile =
  filename :: string
  status :: string
  additions :: nat
  deletions :: nat
  patch :: "string option"

record pullRequest =
  number :: nat
  title :: string
  body :: "string option"

text \<open>
  The own keys of \<open>Object.prototype\<close>. A property read \<open>obj[key]\<close> on an object
  literal finds these inherited members (functions, or the prototype itself for
  \<open>__proto__\<close>) when \<open>obj\<close> has no own property \<open>key\<close>; all of them are truthy and
  none is an array or a string.
\<close>

definition objectPrototypeKeys :: "string list" where
  "objectPrototypeKeys =
     [''constructor'', ''__proto__'', ''hasOwnProperty'', ''isPrototypeOf'',
      ''propertyIsEnumerable'', ''toLocaleString'', ''toString'', ''valueOf'',
      ''__defineGetter__'', ''__defineSetter__'', ''__lookupGetter__'', ''__lookupSetter__'']"

section \<open>\<open>GitHubClient.detectLanguage\<close>\<close>

definition languageMap :: "(string \<times> string) list" where
  "languageMap =
     [(''js'', ''javascript''), (''jsx'', ''javascript''), (''ts'', ''typescript''),
      (''tsx'', ''typescript''), (''py'', ''python''), (''java'', ''java''), (''go'', ''go''),
      (''rs'', ''rust''), (''cpp'', ''cpp''), (''cc'', ''cpp''), (''cxx'', ''cpp''), (''c'', ''c''),
      (''cs'', ''csharp''), (''php'', ''php''), (''rb'', ''ruby''), (''swift'', ''swift''),
      (''kt'', ''kotlin''), (''scala'', ''scala''), (''sh'', ''bash''), (''sql'', ''sql''),
      (''html'', ''html''), (''css'', ''css''), (''scss'', ''scss''), (''sass'', ''sass''),
      (''json'', ''json''), (''yaml'', ''yaml''), (''yml'', ''yaml''), (''xml'', ''xml''),
      (''md'', ''markdown'')]"

text \<open>
  \<open>filename.split('.').pop()\<close>: what follows the last dot, the whole name when it has
  no dot.
\<close>

definition split_pop :: "string \<Rightarrow> string" where
  "split_pop s = rev (takeWhile (\<lambda>c. c \<noteq> CHR ''.'') (rev s))"

text \<open>
  The value \<open>languageMap[extension] || 'text'\<close>: a language name, or for an extension
  that names a member of \<open>Object.prototype\<close> that inherited member (not a string).
\<close>

datatype language = Language string | Inherited string

definition detectLanguage :: "string \<Rightarrow> language" where
  "detectLanguage fname =
     (let extension = toLowerCase (split_pop fname) in
      case map_of languageMap extension of
        Some l \<Rightarrow> Language l
      | None \<Rightarrow>
          if extension \<in> set objectPrototypeKeys then Inherited extension
          else Language ''text'')"

record analysisContext =
  filename :: string
  language :: language
  pullRequestContext :: string
  fileStatus :: "string option"
  additions :: "nat option"
  deletions :: "nat option"

section \<open>Configuration (\<open>config.js\<close>)\<close>

text \<open>
  The fields of the configuration that the orchestrators read. The program reads them
  from the module \<open>config\<close>; the functions below take the configuration as a parameter
  \<open>cfg\<close>, and the constant \<open>config\<close> holds the values of \<open>config.js\<close>.
\<close>

record config =
  maxFilesPerReview :: nat
  excludePatterns :: "string list"
  maxChangesPerRun :: nat
  supportedLanguages :: "string list"

definition config :: config where
  "config =
     \<lparr>maxFilesPerReview = 50,
      excludePatterns =
        [''node_modules/**'', ''dist/**'', ''build/**'', ''*.min.js'', ''*.min.css'',
         ''package-lock.json'', ''yarn.lock''],
      maxChangesPerRun = 10,
      supportedLanguages =
        [''javascript'', ''typescript'', ''python'', ''java'', ''go'', ''rust'', ''cpp'',
         ''csharp'']\<rparr>"

section \<open>Risk classifier: the filter of \<open>FixBot.analyzeAndFixFile\<close>\<close>

text \<open>
  The predicate of \<open>analysis.issues.filter(issue => ...)\<close>, named as the specification
  names it.
\<close>

definition isAutoFixable :: "issue \<Rightarrow> bool" where
  "isAutoFixable issue =
     (issue.type issue \<in> set [''style'', ''performance'', ''refactor''] \<and>
      severity issue \<noteq> ''high'')"

section \<open>\<open>FixBot.groupIssuesByFile\<close>\<close>

text \<open>
  The accumulator \<open>groups\<close> is an object literal: its own properties, in insertion
  order, are an association list. The key of an issue is its \<open>filename\<close> as a property
  key (\<open>undefined\<close> becomes the key \<open>"undefined"\<close>).

  One step of the reducer reads \<open>groups[filename]\<close>. An own property is an array
  (truthy, also when empty) and the issue is pushed. With no own property, a key of
  \<open>Object.prototype\<close> reads the inherited member: it is truthy, so no array is stored,
  and \<open>groups[filename].push\<close> is \<open>undefined\<close>; calling it raises a TypeError. Any other
  key reads \<open>undefined\<close>, and a fresh array with the issue is stored under it.
\<close>

type_synonym groups = "(string \<times> issue list) list"

definition propertyKey :: "issue \<Rightarrow> string" where
  "propertyKey issue = (case issue.filename issue of None \<Rightarrow> ''undefined'' | Some f \<Rightarrow> f)"

definition push :: "groups \<Rightarrow> string \<Rightarrow> issue \<Rightarrow> groups" where
  "push groups k issue = map (\<lambda>(k', arr). if k' = k then (k', arr @ [issue]) else (k', arr)) groups"

definition groupStep :: "groups \<Rightarrow> issue \<Rightarrow> string + groups" where
  "groupStep groups issue =
     (let fname = propertyKey issue in
      case map_of groups fname of
        Some arr \<Rightarrow> Inr (push groups fname issue)
      | None \<Rightarrow>
          if fname \<in> set objectPrototypeKeys then
            Inl ''TypeError: groups[filename].push is not a function''
          else Inr (groups @ [(fname, [issue])]))"

text \<open>\<open>issues.reduce(step, {})\<close>; an exception of a step ends the reduction.\<close>

fun reduce :: "groups \<Rightarrow> issue list \<Rightarrow> string + groups" where
  "reduce groups [] = Inr groups"
| "reduce groups (issue # rest) =
     (case groupStep groups issue of
        Inl err \<Rightarrow> Inl err
      | Inr groups' \<Rightarrow> reduce groups' rest)"

definition groupIssuesByFile :: "issue list \<Rightarrow> string + groups" where
  "groupIssuesByFile issueList = reduce [] issueList"

text \<open>The array stored under a key, empty when the object has no such own property.\<close>

definition lookup :: "groups \<Rightarrow> string \<Rightarrow> issue list" where
  "lookup g k = (case map_of g k of None \<Rightarrow> [] | Some v \<Rightarrow> v)"

text \<open>
  \<open>Object.entries\<close> lists the own properties: keys that are array indices (canonical
  decimal numerals below \<open>2^32 - 1\<close>) first, in ascending numeric order, then the other
  keys in insertion order.
\<close>

definition digitValue :: "char \<Rightarrow> nat" where
  "digitValue c = of_char c - 48"

definition isDigit :: "char \<Rightarrow> bool" where
  "isDigit c = (48 \<le> (of_char c :: nat) \<and> (of_char c :: nat) \<le> 57)"

definition arrayIndex :: "string \<Rightarrow> nat option" where
  "arrayIndex k =
     (if k = [] \<or> \<not> list_all isDigit k \<or> (hd k = CHR ''0'' \<and> length k > 1) then None
      else (let n = foldl (\<lambda>acc c. 10 * acc + digitValue c) 0 k in
            if n < 4294967295 then Some n else None))"

definition objectEntries :: "(string \<times> 'a) list \<Rightarrow> (string \<times> 'a) list" where
  "objectEntries obj =
     sort_key (\<lambda>(k, v). the (arrayIndex k)) (filter (\<lambda>(k, v). arrayIndex k \<noteq> None) obj) @
     filter (\<lambda>(k, v). arrayIndex k = None) obj"

section \<open>Artifact selection: \<open>GitHubClient.filterFiles\<close>\<close>

text \<open>
  \<open>pattern.replace(/\*\*/g, '.*')\<close>: every non-overlapping pair of stars, from the left,
  becomes \<open>.*\<close>.
\<close>

fun replaceStarStar :: "string \<Rightarrow> string" where
  "replaceStarStar (a # b # cs) =
     (if a = CHR ''*'' \<and> b = CHR ''*'' then ''.*'' @ replaceStarStar cs
      else a # replaceStarStar (b # cs))"
| "replaceStarStar cs = cs"

text \<open>
  \<open>.replace(/\*/g, '[^/]*')\<close>: every star becomes \<open>[^/]*\<close>, also the stars that the
  first replacement has just written.
\<close>

definition replaceStar :: "string \<Rightarrow> string" where
  "replaceStar s = concat (map (\<lambda>c. if c = CHR ''*'' then ''[^/]*'' else [c]) s)"

definition regexSource :: "string \<Rightarrow> string" where
  "regexSource pattern = replaceStar (replaceStarStar pattern)"

text \<open>
  \<open>new RegExp(source).test(name)\<close> is a built-in of the language, so \<open>filterFiles\<close>
  takes it as a parameter \<open>rt\<close>: \<open>rt source name\<close> is \<open>Inl\<close> when the constructor raises a
  SyntaxError and \<open>Inr\<close> of the answer of \<open>test\<close> otherwise. \<open>Array.prototype.some\<close>
  stops at the first pattern that matches; an exception leaves \<open>filterFiles\<close>.
\<close>

fun some :: "(string \<Rightarrow> string \<Rightarrow> string + bool) \<Rightarrow> string list \<Rightarrow> string \<Rightarrow> string + bool" where
  "some rt [] fname = Inr False"
| "some rt (pattern # rest) fname =
     (case rt (regexSource pattern) fname of
        Inl err \<Rightarrow> Inl err
      | Inr True \<Rightarrow> Inr True
      | Inr False \<Rightarrow> some rt rest fname)"

fun filterFiles ::
  "(string \<Rightarrow> string \<Rightarrow> string + bool) \<Rightarrow> string list \<Rightarrow> changedFile list \<Rightarrow> string + changedFile list" where
  "filterFiles rt patterns [] = Inr []"
| "filterFiles rt patterns (f # files) =
     (case some rt patterns (changedFile.filename f) of
        Inl err \<Rightarrow> Inl err
      | Inr excluded \<Rightarrow>
          (case filterFiles rt patterns files of
             Inl err \<Rightarrow> Inl err
           | Inr kept \<Rightarrow> Inr (if \<not> excluded then f # kept else kept)))"

subsection \<open>The regular expressions that \<open>filterFiles\<close> builds\<close>

text \<open>
  A model of the regular-expression engine on the sources that \<open>regexSource\<close> produces
  from patterns written with stars, dots and characters that are no regular-expression
  metacharacter: a sequence of literal characters, \<open>.\<close> (any character but a line
  terminator) and \<open>[^/]*\<close> (any run of characters other than \<open>/\<close>). \<open>parseRegExp\<close> is
  \<open>None\<close> on every other source: the model says nothing about those.
\<close>

datatype atom = Lit char | Dot | NotSlashStar

definition metaChars :: string where
  "metaChars = [CHR 0x5C, CHR ''^'', CHR ''$'', CHR ''*'', CHR ''+'', CHR ''?'', CHR ''('', CHR '')'',
                CHR '']'', CHR ''{'', CHR ''}'', CHR ''|'']"

function parseRegExp :: "string \<Rightarrow> atom list option" where
  "parseRegExp [] = Some []"
| "parseRegExp (c # cs) =
     (if c = CHR ''['' then
        (if prefix ''^/]*'' cs then map_option (Cons NotSlashStar) (parseRegExp (drop 4 cs))
         else None)
      else if c = CHR ''.'' then map_option (Cons Dot) (parseRegExp cs)
      else if c \<in> set metaChars then None
      else map_option (Cons (Lit c)) (parseRegExp cs))"
  by pat_completeness auto
termination
  by (relation "measure length") auto

text \<open>
  The atom that a character of a pattern becomes when the pattern has no \<open>**\<close>, no
  bracket and no other metacharacter.
\<close>

definition atomOf :: "char \<Rightarrow> atom" where
  "atomOf c = (if c = CHR ''*'' then NotSlashStar else if c = CHR ''.'' then Dot else Lit c)"

definition lineTerminator :: "char \<Rightarrow> bool" where
  "lineTerminator c = (c = CHR 0x0A \<or> c = CHR 0x0D)"

text \<open>\<open>matchesAt r s\<close>: the expression matches a prefix of \<open>s\<close>.\<close>

fun matchesAt :: "atom list \<Rightarrow> string \<Rightarrow> bool" where
  "matchesAt [] s = True"
| "matchesAt (Lit c # r) s = (case s of [] \<Rightarrow> False | x # xs \<Rightarrow> x = c \<and> matchesAt r xs)"
| "matchesAt (Dot # r) s = (case s of [] \<Rightarrow> False | x # xs \<Rightarrow> \<not> lineTerminator x \<and> matchesAt r xs)"
| "matchesAt (NotSlashStar # r) s =
     (matchesAt r s \<or>
      (case s of [] \<Rightarrow> False | x # xs \<Rightarrow> x \<noteq> CHR ''/'' \<and> matchesAt (NotSlashStar # r) xs))"

text \<open>\<open>test\<close> without anchors: the expression matches at some position of the name.\<close>

fun test :: "atom list \<Rightarrow> string \<Rightarrow> bool" where
  "test r [] = matchesAt r []"
| "test r (x # xs) = (matchesAt r (x # xs) \<or> test r xs)"

definition RegExp_fragment :: "string \<Rightarrow> string \<Rightarrow> bool option" where
  "RegExp_fragment source fname = map_option (\<lambda>r. test r fname) (parseRegExp source)"

text \<open>An engine that answers as the model does and rejects every source outside it.\<close>

definition fragmentEngine :: "string \<Rightarrow> string \<Rightarrow> string + bool" where
  "fragmentEngine source fname =
     (case RegExp_fragment source fname of
        None \<Rightarrow> Inl ''SyntaxError''
      | Some b \<Rightarrow> Inr b)"

subsection \<open>The glob semantics of the specification\<close>

text \<open>
  Written from the specification's words, to compare \<open>filterFiles\<close> with: in a pattern
  \<open>**\<close> stands for any run of characters, separators included, \<open>*\<close> for any run of
  characters other than the separator \<open>/\<close>, and every other character for itself; a
  path matches when the pattern describes all of it.
\<close>

function globMatch :: "string \<Rightarrow> string \<Rightarrow> bool" where
  "globMatch [] s = (s = [])"
| "globMatch (c # p) s =
     (if c = CHR ''*'' \<and> p \<noteq> [] \<and> hd p = CHR ''*'' then
        (globMatch (tl p) s \<or> (case s of [] \<Rightarrow> False | x # xs \<Rightarrow> globMatch (c # p) xs))
      else if c = CHR ''*'' then
        (globMatch p s \<or>
         (case s of [] \<Rightarrow> False | x # xs \<Rightarrow> x \<noteq> CHR ''/'' \<and> globMatch (c # p) xs))
      else (case s of [] \<Rightarrow> False | x # xs \<Rightarrow> x = c \<and> globMatch p xs))"
  by pat_completeness auto
termination
  by (relation "measure (\<lambda>(p, s). length p + length s)") auto

section \<open>Analysis protocol adapter (\<open>MCPClient\<close>)\<close>

text \<open>
  A response of \<open>anthropic.messages.create\<close> is the list of its content blocks, each
  with its \<open>text\<close> (\<open>None\<close> for a block without text). The prompts are kept as the
  arguments of the functions that render them (\<open>buildAnalysisPrompt(code, context)\<close>,
  \<open>buildFixPrompt(issues, originalCode, context)\<close>, the fixed question of
  \<open>healthCheck\<close>).
\<close>

type_synonym response = "string option list"

datatype prompt =
  AnalysisPrompt string analysisContext
| FixPrompt "issue list" string analysisContext
| HealthCheckPrompt

text \<open>
  \<open>content.match(/\{[\s\S]*\}/)\<close>: the match starts at the first \<open>{\<close> and, the star
  being greedy, ends at the last \<open>}\<close> after it; there is none when no \<open>}\<close> follows the
  first \<open>{\<close>.
\<close>

definition jsonMatch :: "string \<Rightarrow> string option" where
  "jsonMatch content =
     (case dropWhile (\<lambda>c. c \<noteq> CHR ''{'') content of
        [] \<Rightarrow> None
      | brace # rest \<Rightarrow>
          if CHR ''}'' \<in> set rest then
            Some (brace # rev (dropWhile (\<lambda>c. c \<noteq> CHR ''}'') (rev rest)))
          else None)"

definition parseTextResponse :: "string \<Rightarrow> analysis" where
  "parseTextResponse content =
     \<lparr>summary = take 200 content @ ''...'',
      issues = Some [],
      overallRating = ''unknown'',
      recommendations = [''Manual review recommended'']\<rparr>"

text \<open>
  The \<open>try\<close> block of \<open>parseResponse\<close>. \<open>response.content[0].text\<close> raises a TypeError on
  an empty content list, and \<open>content.match\<close> raises one when the first block has no
  text. \<open>JSON.parse\<close> is a built-in and a parameter here: \<open>Inl\<close> is its SyntaxError.
\<close>

definition parseResponse_try :: "(string \<Rightarrow> string + analysis) \<Rightarrow> response \<Rightarrow> string + analysis" where
  "parseResponse_try JSON_parse response =
     (case response of
        [] \<Rightarrow> Inl ''TypeError''
      | None # _ \<Rightarrow> Inl ''TypeError''
      | Some content # _ \<Rightarrow>
          (case jsonMatch content of
             Some m \<Rightarrow> JSON_parse m
           | None \<Rightarrow> Inr (parseTextResponse content)))"

definition parseResponse :: "(string \<Rightarrow> string + analysis) \<Rightarrow> response \<Rightarrow> string + analysis" where
  "parseResponse JSON_parse response =
     (case parseResponse_try JSON_parse response of
        Inl err \<Rightarrow>
          Inr \<lparr>summary = ''Error parsing response'', issues = Some [], overallRating = ''unknown'',
               recommendations = []\<rparr>
      | Inr a \<Rightarrow> Inr a)"

text \<open>
  \<open>content.match(/```(?:\w+)?\n([\s\S]*?)\n```/)\<close>: at the leftmost fence that is
  followed by an optional word, a line feed and, later, a line feed and a closing fence,
  the group is the text between the two line feeds, up to the first such closing.
\<close>

definition wordChar :: "char \<Rightarrow> bool" where
  "wordChar c =
     (let n = (of_char c :: nat) in
      (48 \<le> n \<and> n \<le> 57) \<or> (65 \<le> n \<and> n \<le> 90) \<or> (97 \<le> n \<and> n \<le> 122) \<or> n = 95)"

fun upTo :: "string \<Rightarrow> string \<Rightarrow> string option" where
  "upTo pat [] = (if pat = [] then Some [] else None)"
| "upTo pat (c # cs) =
     (if prefix pat (c # cs) then Some []
      else map_option (Cons c) (upTo pat cs))"

fun codeMatch :: "string \<Rightarrow> string option" where
  "codeMatch [] = None"
| "codeMatch (c # cs) =
     (if prefix ''```'' (c # cs) then
        (case dropWhile wordChar (drop 3 (c # cs)) of
           [] \<Rightarrow> codeMatch cs
         | n # rest \<Rightarrow>
             if n = CHR 0x0A then
               (case upTo (CHR 0x0A # ''```'') rest of
                  Some captured \<Rightarrow> Some captured
                | None \<Rightarrow> codeMatch cs)
             else codeMatch cs)
      else codeMatch cs)"

definition parseFixes :: "response \<Rightarrow> string option" where
  "parseFixes response =
     (case response of
        [] \<Rightarrow> None
      | None # _ \<Rightarrow> None
      | Some content # _ \<Rightarrow>
          (case codeMatch content of
             Some captured \<Rightarrow> Some captured
           | None \<Rightarrow> Some content))"

section \<open>The world outside the program\<close>

text \<open>
  The collaborators are parameters of a run: what the platform and the reasoning
  service answer (\<open>Inl\<close> is a raised exception with its message, \<open>Some\<close> an exception of
  a call that returns nothing), \<open>JSON.parse\<close> and the regular-expression engine. Each
  answers a call from the arguments of the call alone.
\<close>

text \<open>
  A posted comment: the text, or for the comment of one issue the arguments of
  \<open>buildIssueComment(issue, filename)\<close>, which renders it.
\<close>

datatype comment = Text string | IssueComment issue string

record review =
  file' :: changedFile
  analysis :: analysis
  context' :: analysisContext

text \<open>The body of a posted review: the arguments of \<open>buildSummaryComment\<close>, which renders it.\<close>

record summaryComment =
  arg_reviews :: "review list"
  arg_pullRequest :: pullRequest
  arg_overallAssessment :: string
  arg_emoji :: string
  arg_totalIssues :: nat
  arg_highSeverityIssues :: nat

record env =
  octokit_pulls_get :: "string + pullRequest"
  octokit_pulls_listFiles :: "string + changedFile list"
  octokit_pulls_createReview :: "summaryComment \<Rightarrow> string \<Rightarrow> string option"
  octokit_issues_createComment :: "comment \<Rightarrow> string option"
  anthropic_messages_create :: "prompt \<Rightarrow> string + response"
  JSON_parse :: "string \<Rightarrow> string + analysis"
  RegExp_test :: "string \<Rightarrow> string \<Rightarrow> string + bool"
  fs_writeFile :: "string \<Rightarrow> string \<Rightarrow> string option"

text \<open>
  What a run changes and what it leaves behind: the files of the working directory
  (\<open>fs.readFile\<close> fails on a name outside the map), the comments and reviews posted, in
  order, every request sent to the reasoning service and every call of \<open>fs.writeFile\<close>.
\<close>

record world =
  files :: "string \<rightharpoonup> string"
  comments :: "comment list"
  posted :: "(summaryComment \<times> string) list"
  requests :: "prompt list"
  writes :: "(string \<times> string) list"

text \<open>An \<open>async\<close> method: it changes the world and returns a value or raises.\<close>

type_synonym 'a action = "world \<Rightarrow> (string + 'a) \<times> world"

definition return :: "'a \<Rightarrow> 'a action" where
  "return a w = (Inr a, w)"

definition throw :: "string \<Rightarrow> 'a action" where
  "throw err w = (Inl err, w)"

definition bind :: "'a action \<Rightarrow> ('a \<Rightarrow> 'b action) \<Rightarrow> 'b action" where
  "bind m f w = (case m w of (Inl err, w') \<Rightarrow> (Inl err, w') | (Inr a, w') \<Rightarrow> f a w')"

definition try_catch :: "'a action \<Rightarrow> (string \<Rightarrow> 'a action) \<Rightarrow> 'a action" where
  "try_catch m handler w = (case m w of (Inl err, w') \<Rightarrow> handler err w' | (Inr a, w') \<Rightarrow> (Inr a, w'))"

definition lift :: "string + 'a \<Rightarrow> 'a action" where
  "lift r w = (r, w)"

subsection \<open>\<open>GitHubClient\<close>: each method rethrows what the platform raises\<close>

definition getPullRequest :: "env \<Rightarrow> pullRequest action" where
  "getPullRequest e = lift (octokit_pulls_get e)"

definition getPullRequestFiles :: "env \<Rightarrow> changedFile list action" where
  "getPullRequestFiles e = lift (octokit_pulls_listFiles e)"

definition createComment :: "env \<Rightarrow> comment \<Rightarrow> unit action" where
  "createComment e c w =
     (case octokit_issues_createComment e c of
        Some err \<Rightarrow> (Inl err, w)
      | None \<Rightarrow> (Inr (), w\<lparr>comments := comments w @ [c]\<rparr>))"

definition createReview :: "env \<Rightarrow> summaryComment \<Rightarrow> string \<Rightarrow> unit action" where
  "createReview e b event w =
     (case octokit_pulls_createReview e b event of
        Some err \<Rightarrow> (Inl err, w)
      | None \<Rightarrow> (Inr (), w\<lparr>posted := posted w @ [(b, event)]\<rparr>))"

subsection \<open>\<open>MCPClient\<close>: requests to the reasoning service\<close>

definition messages_create :: "env \<Rightarrow> prompt \<Rightarrow> response action" where
  "messages_create e p w = (anthropic_messages_create e p, w\<lparr>requests := requests w @ [p]\<rparr>)"

definition analyzeCode :: "env \<Rightarrow> string \<Rightarrow> analysisContext \<Rightarrow> analysis action" where
  "analyzeCode e code ctx =
     bind (messages_create e (AnalysisPrompt code ctx)) (\<lambda>response.
       lift (parseResponse (JSON_parse e) response))"

definition generateFixes :: "env \<Rightarrow> issue list \<Rightarrow> string \<Rightarrow> analysisContext \<Rightarrow> string option action" where
  "generateFixes e issueList originalCode ctx =
     bind (messages_create e (FixPrompt issueList originalCode ctx)) (\<lambda>response.
       return (parseFixes response))"

text \<open>\<open>healthCheck\<close> catches every exception of its request and answers \<open>false\<close>.\<close>

definition healthCheck :: "env \<Rightarrow> bool action" where
  "healthCheck e =
     try_catch
       (bind (messages_create e HealthCheckPrompt) (\<lambda>response.
          case response of
            [] \<Rightarrow> throw ''TypeError''
          | None # _ \<Rightarrow> throw ''TypeError''
          | Some t # _ \<Rightarrow> return (str_includes t ''healthy'')))
       (\<lambda>err. return False)"

section \<open>Review orchestrator (\<open>ReviewBot\<close>)\<close>

text \<open>
  \<open>String.prototype.trim\<close> removes white space and line terminators from both ends. Among
  the code units below 256 these are tab, line feed, vertical tab, form feed, carriage
  return (9 to 13), space (32) and no-break space (160).
\<close>

definition whiteSpace :: "char \<Rightarrow> bool" where
  "whiteSpace c = (let n = (of_char c :: nat) in (9 \<le> n \<and> n \<le> 13) \<or> n = 32 \<or> n = 160)"

definition trim :: "string \<Rightarrow> string" where
  "trim s = rev (dropWhile whiteSpace (rev (dropWhile whiteSpace s)))"

text \<open>A number in a template literal: its decimal digits.\<close>

fun digits :: "nat \<Rightarrow> string" where
  "digits n = (if n < 10 then [char_of (48 + n)] else digits (n div 10) @ [char_of (48 + n mod 10)])"

declare digits.simps [simp del]

text \<open>
  The methods that post a comment build its text in a constant \<open>comment\<close> first; that
  text is a definition of its own here, named after the method.
\<close>

definition ReviewBot_errorComment :: "string \<Rightarrow> string" where
  "ReviewBot_errorComment errorMessage =
     ''## :x: ReviewBot Error'' @ nl @ nl @
     ''An error occurred during the analysis:'' @ nl @ nl @
     ''```'' @ nl @ errorMessage @ nl @ ''```'' @ nl @ nl @
     ''Please check the action logs for more details.''"

definition ReviewBot_postErrorComment :: "env \<Rightarrow> string \<Rightarrow> unit action" where
  "ReviewBot_postErrorComment e errorMessage =
     try_catch (createComment e (Text (ReviewBot_errorComment errorMessage))) (\<lambda>err. return ())"

definition ReviewBot_summaryComment :: "string \<Rightarrow> string" where
  "ReviewBot_summaryComment message = ''## :robot: ReviewBot'' @ nl @ nl @ message"

definition postSummaryComment :: "env \<Rightarrow> string \<Rightarrow> unit action" where
  "postSummaryComment e message =
     try_catch (createComment e (Text (ReviewBot_summaryComment message))) (\<lambda>err. return ())"

definition analyzeFile_try :: "env \<Rightarrow> changedFile \<Rightarrow> pullRequest \<Rightarrow> review option action" where
  "analyzeFile_try e f pr =
     (if changedFile.additions f + changedFile.deletions f > 1000 then return None
      else
        let lang = detectLanguage (changedFile.filename f);
            changed = (status f = ''added'' \<or> status f = ''modified'');
            content = (if changed then (case patch f of None \<Rightarrow> [] | Some p \<Rightarrow> p) else [])
        in
          if \<not> changed \<and> status f = ''removed'' then return None
          else if trim content = [] then return None
          else
            let ctx =
              \<lparr>analysisContext.filename = changedFile.filename f,
               language = lang,
               pullRequestContext =
                 ''PR #'' @ digits (number pr) @ '': '' @ title pr @ nl @
                 (case body pr of None \<Rightarrow> [] | Some b \<Rightarrow> b),
               fileStatus = Some (status f),
               analysisContext.additions = Some (changedFile.additions f),
               analysisContext.deletions = Some (changedFile.deletions f)\<rparr>
            in bind (analyzeCode e content ctx) (\<lambda>a.
                 return (Some \<lparr>file' = f, analysis = a, context' = ctx\<rparr>)))"

definition analyzeFile :: "env \<Rightarrow> changedFile \<Rightarrow> pullRequest \<Rightarrow> review option action" where
  "analyzeFile e f pr = try_catch (analyzeFile_try e f pr) (\<lambda>err. return None)"

text \<open>The loop \<open>for (const file of filesToReview)\<close>, with the array \<open>reviews\<close> it fills.\<close>

fun analyzeFiles :: "env \<Rightarrow> pullRequest \<Rightarrow> changedFile list \<Rightarrow> review list \<Rightarrow> review list action" where
  "analyzeFiles e pr [] reviews w = (Inr reviews, w)"
| "analyzeFiles e pr (f # filesToReview) reviews w =
     (case analyzeFile e f pr w of
        (Inl err, w') \<Rightarrow> (Inl err, w')
      | (Inr None, w') \<Rightarrow> analyzeFiles e pr filesToReview reviews w'
      | (Inr (Some r), w') \<Rightarrow> analyzeFiles e pr filesToReview (reviews @ [r]) w')"

text \<open>
  \<open>reviews.reduce((sum, review) => sum + f(review.analysis.issues), 0)\<close>, where \<open>f\<close> reads
  \<open>length\<close> or calls \<open>filter\<close>: at a result without issues that read raises a TypeError,
  which ends the reduction.
\<close>

fun reduceIssues :: "(issue list \<Rightarrow> nat) \<Rightarrow> nat \<Rightarrow> review list \<Rightarrow> string + nat" where
  "reduceIssues f acc [] = Inr acc"
| "reduceIssues f acc (r # reviews) =
     (case issues (analysis r) of
        None \<Rightarrow> Inl ''TypeError''
      | Some found \<Rightarrow> reduceIssues f (acc + f found) reviews)"

definition totalIssues :: "review list \<Rightarrow> string + nat" where
  "totalIssues reviews = reduceIssues length 0 reviews"

definition highSeverityIssues :: "review list \<Rightarrow> string + nat" where
  "highSeverityIssues reviews =
     reduceIssues (\<lambda>found. length (filter (\<lambda>i. severity i = ''high'') found)) 0 reviews"

text \<open>
  The issues of a result, none when it has no \<open>issues\<close>, and all issues of all results,
  for the global counts the specification speaks of.
\<close>

definition issuesOf :: "analysis \<Rightarrow> issue list" where
  "issuesOf a = (case issues a of None \<Rightarrow> [] | Some found \<Rightarrow> found)"

definition allIssues :: "review list \<Rightarrow> issue list" where
  "allIssues reviews = concat (map (\<lambda>r. issuesOf (analysis r)) reviews)"

definition overallAssessment :: "nat \<Rightarrow> nat \<Rightarrow> string \<times> string" where
  "overallAssessment nTotal nHigh =
     (if nHigh > 0 then
        ('':x: **CHANGES REQUESTED** - High severity issues found'', '':x:'')
      else if nTotal > 5 then
        ('':warning: **NEEDS IMPROVEMENT** - Multiple issues found'', '':warning:'')
      else if nTotal > 0 then
        ('':memo: **APPROVED WITH SUGGESTIONS** - Minor issues found'', '':memo:'')
      else
        ('':white_check_mark: **APPROVED** - Code looks good!'', '':white_check_mark:''))"

definition generateSummary_try :: "env \<Rightarrow> review list \<Rightarrow> pullRequest \<Rightarrow> unit action" where
  "generateSummary_try e reviews pr =
     bind (lift (totalIssues reviews)) (\<lambda>nTotal.
     bind (lift (highSeverityIssues reviews)) (\<lambda>nHigh.
       let summaryText =
             \<lparr>arg_reviews = reviews, arg_pullRequest = pr,
              arg_overallAssessment = fst (overallAssessment nTotal nHigh),
              arg_emoji = snd (overallAssessment nTotal nHigh),
              arg_totalIssues = nTotal, arg_highSeverityIssues = nHigh\<rparr>;
           event = (if nHigh > 0 then ''REQUEST_CHANGES'' else ''COMMENT'')
       in createReview e summaryText event))"

definition generateSummary :: "env \<Rightarrow> review list \<Rightarrow> pullRequest \<Rightarrow> unit action" where
  "generateSummary e reviews pr = try_catch (generateSummary_try e reviews pr) (\<lambda>err. return ())"

text \<open>
  One comment for every issue; a failed post is logged and the loop goes on. The test
  \<open>review.analysis.issues.length === 0\<close> of \<open>postFileComments\<close> stands outside that inner
  \<open>try\<close>: at a result without issues its TypeError leaves the method, after the comments
  for the results before it have been posted.
\<close>

fun postIssueComments :: "env \<Rightarrow> string \<Rightarrow> issue list \<Rightarrow> unit action" where
  "postIssueComments e fname [] w = (Inr (), w)"
| "postIssueComments e fname (i # rest) w =
     (case try_catch (createComment e (IssueComment i fname)) (\<lambda>err. return ()) w of
        (Inl err, w') \<Rightarrow> (Inl err, w')
      | (Inr u, w') \<Rightarrow> postIssueComments e fname rest w')"

fun postFileComments :: "env \<Rightarrow> review list \<Rightarrow> unit action" where
  "postFileComments e [] w = (Inr (), w)"
| "postFileComments e (r # reviews) w =
     (case issues (analysis r) of
        None \<Rightarrow> (Inl ''TypeError'', w)
      | Some found \<Rightarrow>
          (case postIssueComments e (changedFile.filename (file' r)) found w of
             (Inl err, w') \<Rightarrow> (Inl err, w')
           | (Inr u, w') \<Rightarrow> postFileComments e reviews w'))"

text \<open>The comments that \<open>postFileComments\<close> posts.\<close>

fun isIssueComment :: "comment \<Rightarrow> bool" where
  "isIssueComment (IssueComment i fname) = True"
| "isIssueComment (Text t) = False"

definition reviewPullRequest_try :: "config \<Rightarrow> env \<Rightarrow> unit action" where
  "reviewPullRequest_try cfg e =
     bind (healthCheck e) (\<lambda>isHealthy.
       if \<not> isHealthy then throw ''MCP connection health check failed''
       else
         bind (getPullRequest e) (\<lambda>pr.
         bind (getPullRequestFiles e) (\<lambda>changed.
         bind (lift (filterFiles (RegExp_test e) (excludePatterns cfg) changed)) (\<lambda>filteredFiles.
           if length filteredFiles = 0 then
             postSummaryComment e ''No reviewable files found in this PR.''
           else
             let filesToReview = take (maxFilesPerReview cfg) filteredFiles in
             bind (analyzeFiles e pr filesToReview []) (\<lambda>reviews.
             bind (generateSummary e reviews pr) (\<lambda>u.
             postFileComments e reviews))))))"

definition reviewPullRequest :: "config \<Rightarrow> env \<Rightarrow> unit action" where
  "reviewPullRequest cfg e =
     try_catch (reviewPullRequest_try cfg e) (\<lambda>err. ReviewBot_postErrorComment e err)"

subsection \<open>Construction and the caller\<close>

text \<open>
  The environment variables the constructors read; \<open>!value\<close> holds for a variable that
  is unset or empty.
\<close>

record processEnv =
  PR_NUMBER :: "string option"
  COMMENT_BODY :: "string option"
  GITHUB_TOKEN :: "string option"
  CLAUDE_API_KEY :: "string option"

definition falsy :: "string option \<Rightarrow> bool" where
  "falsy v = (v = None \<or> v = Some [])"

text \<open>\<open>new ReviewBot()\<close> and \<open>new FixBot()\<close>: the two clients first, then the own check.\<close>

definition newBot :: "processEnv \<Rightarrow> string + unit" where
  "newBot penv =
     (if falsy (CLAUDE_API_KEY penv) then Inl ''CLAUDE_API_KEY environment variable is required''
      else if falsy (GITHUB_TOKEN penv) then Inl ''GITHUB_TOKEN environment variable is required''
      else if falsy (PR_NUMBER penv) then Inl ''PR_NUMBER environment variable is required''
      else Inr ())"

text \<open>\<open>LetThemReview.runReviewBot\<close>: logs and rethrows.\<close>

definition runReviewBot :: "config \<Rightarrow> processEnv \<Rightarrow> env \<Rightarrow> unit action" where
  "runReviewBot cfg penv e =
     try_catch (bind (lift (newBot penv)) (\<lambda>u. reviewPullRequest cfg e)) (\<lambda>err. throw err)"

text \<open>The exit status of the command \<open>review\<close>: 1 when \<open>runReviewBot\<close> raises, 0 otherwise.\<close>

definition runCommand_review :: "config \<Rightarrow> processEnv \<Rightarrow> env \<Rightarrow> world \<Rightarrow> nat \<times> world" where
  "runCommand_review cfg penv e w =
     (case runReviewBot cfg penv e w of
        (Inl err, w') \<Rightarrow> (1, w')
      | (Inr u, w') \<Rightarrow> (0, w'))"

section \<open>Fix orchestrator (\<open>FixBot\<close>)\<close>

record fixResult =
  success :: bool
  fixesApplied :: nat

definition fixSummaryComment :: "nat \<Rightarrow> nat \<Rightarrow> nat \<Rightarrow> string" where
  "fixSummaryComment fixedFiles totalFixes totalFiles =
     ''## :wrench: FixBot Results'' @ nl @ nl @
     '':white_check_mark: **Automated fixes applied successfully!**'' @ nl @ nl @
     ''### :bar_chart: Summary'' @ nl @
     ''- **Files processed:** '' @ digits totalFiles @ nl @
     ''- **Files modified:** '' @ digits fixedFiles @ nl @
     ''- **Total fixes applied:** '' @ digits totalFixes @ nl @ nl @
     ''### :dart: Fix Types Applied'' @ nl @
     ''- Code style improvements'' @ nl @
     ''- Performance optimizations'' @ nl @
     ''- Refactoring suggestions'' @ nl @ nl @
     ''---'' @ nl @
     '':robot: *Changes have been committed automatically. Please review the modifications before merging.*''"

definition postFixSummary :: "env \<Rightarrow> nat \<Rightarrow> nat \<Rightarrow> nat \<Rightarrow> unit action" where
  "postFixSummary e fixedFiles totalFixes totalFiles =
     try_catch (createComment e (Text (fixSummaryComment fixedFiles totalFixes totalFiles)))
       (\<lambda>err. return ())"

definition fixComment :: "string \<Rightarrow> string" where
  "fixComment message = ''## :wrench: FixBot'' @ nl @ nl @ message"

definition postFixComment :: "env \<Rightarrow> string \<Rightarrow> unit action" where
  "postFixComment e message =
     try_catch (createComment e (Text (fixComment message))) (\<lambda>err. return ())"

definition FixBot_errorComment :: "string \<Rightarrow> string" where
  "FixBot_errorComment errorMessage =
     ''## :x: FixBot Error'' @ nl @ nl @
     ''An error occurred while applying fixes:'' @ nl @ nl @
     ''```'' @ nl @ errorMessage @ nl @ ''```'' @ nl @ nl @
     ''Please check the action logs for more details.''"

definition FixBot_postErrorComment :: "env \<Rightarrow> string \<Rightarrow> unit action" where
  "FixBot_postErrorComment e errorMessage =
     try_catch (createComment e (Text (FixBot_errorComment errorMessage))) (\<lambda>err. return ())"

text \<open>
  \<open>getCurrentFileContent\<close> answers \<open>null\<close> when the file cannot be read. A file is
  found under its name as given (\<open>path.join\<close> with the working directory is not
  modelled further).
\<close>

definition getCurrentFileContent :: "string \<Rightarrow> string option action" where
  "getCurrentFileContent fname w = (Inr (files w fname), w)"

definition writeFileContent :: "env \<Rightarrow> string \<Rightarrow> string \<Rightarrow> unit action" where
  "writeFileContent e fname content w =
     (let w' = w\<lparr>writes := writes w @ [(fname, content)]\<rparr> in
      case fs_writeFile e fname content of
        Some err \<Rightarrow> (Inl err, w')
      | None \<Rightarrow> (Inr (), w'\<lparr>files := (files w')(fname \<mapsto> content)\<rparr>))"

definition fixContext :: "string \<Rightarrow> pullRequest \<Rightarrow> analysisContext" where
  "fixContext fname pr =
     \<lparr>analysisContext.filename = fname,
      language = detectLanguage fname,
      pullRequestContext = ''PR #'' @ digits (number pr) @ '': '' @ title pr,
      fileStatus = None,
      analysisContext.additions = None,
      analysisContext.deletions = None\<rparr>"

definition noFix :: fixResult where
  "noFix = \<lparr>success = False, fixesApplied = 0\<rparr>"

text \<open>
  In both methods below the test \<open>!fixedContent || fixedContent === content\<close> sends \<open>null\<close>,
  the empty string and the unchanged content to the same return.
\<close>

definition fixFileIssues_try :: "env \<Rightarrow> string \<Rightarrow> issue list \<Rightarrow> pullRequest \<Rightarrow> fixResult action" where
  "fixFileIssues_try e fname issueList pr =
     bind (getCurrentFileContent fname) (\<lambda>currentContent.
       case currentContent of
         None \<Rightarrow> return noFix
       | Some content \<Rightarrow>
           if content = [] then return noFix
           else
             let ctx = fixContext fname pr in
             bind (generateFixes e issueList content ctx) (\<lambda>fixedContent.
               case fixedContent of
                 None \<Rightarrow> return noFix
               | Some fixed \<Rightarrow>
                   if fixed = [] \<or> fixed = content then return noFix
                   else
                     bind (writeFileContent e fname fixed) (\<lambda>u.
                       return \<lparr>success = True, fixesApplied = length issueList\<rparr>)))"

definition fixFileIssues :: "env \<Rightarrow> string \<Rightarrow> issue list \<Rightarrow> pullRequest \<Rightarrow> fixResult action" where
  "fixFileIssues e fname issueList pr =
     try_catch (fixFileIssues_try e fname issueList pr) (\<lambda>err. return noFix)"

definition supported :: "config \<Rightarrow> language \<Rightarrow> bool" where
  "supported cfg lang =
     (case lang of Language l \<Rightarrow> l \<in> set (supportedLanguages cfg) | Inherited k \<Rightarrow> False)"

definition analyzeAndFixFile_try :: "config \<Rightarrow> env \<Rightarrow> changedFile \<Rightarrow> pullRequest \<Rightarrow> fixResult action" where
  "analyzeAndFixFile_try cfg e f pr =
     (if changedFile.additions f + changedFile.deletions f > 500 then return noFix
      else
        bind (getCurrentFileContent (changedFile.filename f)) (\<lambda>currentContent.
          case currentContent of
            None \<Rightarrow> return noFix
          | Some content \<Rightarrow>
              if content = [] then return noFix
              else if \<not> supported cfg (detectLanguage (changedFile.filename f)) then return noFix
              else
                let ctx = fixContext (changedFile.filename f) pr in
                bind (analyzeCode e content ctx) (\<lambda>a.
                  case issues a of
                    None \<Rightarrow> return noFix
                  | Some found \<Rightarrow>
                      if length found = 0 then return noFix
                      else
                        let fixableIssues = filter isAutoFixable found in
                        if length fixableIssues = 0 then return noFix
                        else
                          bind (generateFixes e fixableIssues content ctx) (\<lambda>fixedContent.
                            case fixedContent of
                              None \<Rightarrow> return noFix
                            | Some fixed \<Rightarrow>
                                if fixed = [] \<or> fixed = content then return noFix
                                else
                                  bind (writeFileContent e (changedFile.filename f) fixed) (\<lambda>u.
                                    return \<lparr>success = True,
                                            fixesApplied = length fixableIssues\<rparr>)))))"

definition analyzeAndFixFile :: "config \<Rightarrow> env \<Rightarrow> changedFile \<Rightarrow> pullRequest \<Rightarrow> fixResult action" where
  "analyzeAndFixFile cfg e f pr =
     try_catch (analyzeAndFixFile_try cfg e f pr) (\<lambda>err. return noFix)"

text \<open>\<open>extractIssuesFromComments\<close> returns a fixed list of one issue.\<close>

definition extractIssuesFromComments :: "issue list" where
  "extractIssuesFromComments =
     [\<lparr>issue.type = ''style'', severity = ''low'', line = Some 10,
       description = ''Missing semicolon'',
       suggestion = ''Add semicolon at end of statement'',
       issue.filename = Some ''example.js''\<rparr>]"

text \<open>
  The loop of \<open>applySpecificFixes\<close> over \<open>Object.entries(issuesByFile)\<close>, with the two
  counters \<open>fixedFiles\<close> and \<open>totalFixes\<close>.
\<close>

fun fixGroups :: "env \<Rightarrow> pullRequest \<Rightarrow> groups \<Rightarrow> nat \<times> nat \<Rightarrow> (nat \<times> nat) action" where
  "fixGroups e pr [] counters w = (Inr counters, w)"
| "fixGroups e pr ((fname, fileIssues) # rest) counters w =
     (case fixFileIssues e fname fileIssues pr w of
        (Inl err, w') \<Rightarrow> (Inl err, w')
      | (Inr result, w') \<Rightarrow>
          fixGroups e pr rest
            (if success result then (fst counters + 1, snd counters + fixesApplied result)
             else counters) w')"

text \<open>
  \<open>applySpecificFixes\<close> after \<open>issues\<close> has been read; its \<open>catch\<close> rethrows.
\<close>

definition applySpecificFixes_on :: "issue list \<Rightarrow> env \<Rightarrow> fixRequest \<Rightarrow> pullRequest \<Rightarrow> unit action" where
  "applySpecificFixes_on issueList e fixReq pr =
     (if length issueList = 0 then
        postFixComment e
          ''No specific issues found to fix. Please ensure ReviewBot has analyzed the PR first.''
      else
        bind (lift (groupIssuesByFile issueList)) (\<lambda>issuesByFile.
        bind (fixGroups e pr (objectEntries issuesByFile) (0, 0)) (\<lambda>(fixedFiles, totalFixes).
          postFixSummary e fixedFiles totalFixes (length issuesByFile))))"

definition applySpecificFixes :: "env \<Rightarrow> fixRequest \<Rightarrow> pullRequest \<Rightarrow> unit action" where
  "applySpecificFixes e fixReq pr = applySpecificFixes_on extractIssuesFromComments e fixReq pr"

fun fixFiles :: "config \<Rightarrow> env \<Rightarrow> pullRequest \<Rightarrow> changedFile list \<Rightarrow> nat \<times> nat \<Rightarrow> (nat \<times> nat) action" where
  "fixFiles cfg e pr [] counters w = (Inr counters, w)"
| "fixFiles cfg e pr (f # rest) counters w =
     (case analyzeAndFixFile cfg e f pr w of
        (Inl err, w') \<Rightarrow> (Inl err, w')
      | (Inr result, w') \<Rightarrow>
          fixFiles cfg e pr rest
            (if success result then (fst counters + 1, snd counters + fixesApplied result)
             else counters) w')"

definition applyGeneralFixes :: "config \<Rightarrow> env \<Rightarrow> pullRequest \<Rightarrow> unit action" where
  "applyGeneralFixes cfg e pr =
     bind (getPullRequestFiles e) (\<lambda>changed.
     bind (lift (filterFiles (RegExp_test e) (excludePatterns cfg) changed)) (\<lambda>filteredFiles.
     bind (fixFiles cfg e pr (take (maxChangesPerRun cfg) filteredFiles) (0, 0)) (\<lambda>(fixedFiles, totalFixes).
       postFixSummary e fixedFiles totalFixes (length filteredFiles))))"

definition processFixRequest_try :: "config \<Rightarrow> string \<Rightarrow> env \<Rightarrow> unit action" where
  "processFixRequest_try cfg commentBody e =
     bind (healthCheck e) (\<lambda>isHealthy.
       if \<not> isHealthy then throw ''MCP connection health check failed''
       else
         let fixReq = parseFixRequest commentBody in
         if \<not> shouldFix fixReq then return ()
         else
           bind (getPullRequest e) (\<lambda>pr.
             if fixRequest.type fixReq = Some ''specific'' then applySpecificFixes e fixReq pr
             else if fixRequest.type fixReq = Some ''general'' then applyGeneralFixes cfg e pr
             else return ()))"

definition processFixRequest :: "config \<Rightarrow> string \<Rightarrow> env \<Rightarrow> unit action" where
  "processFixRequest cfg commentBody e =
     try_catch (processFixRequest_try cfg commentBody e) (\<lambda>err. FixBot_postErrorComment e err)"

section \<open>Sample collaborators\<close>

text \<open>
  Concrete collaborators for the examples below: a pull request, an analysis with one
  low-severity style issue, a working directory with the file \<open>app.js\<close>, and a platform
  and a reasoning service that answer every call; the answers to an analysis request
  and, from the original content, to a fix request are parameters.
\<close>

definition samplePR :: pullRequest where
  "samplePR = \<lparr>number = 7, title = ''Add parser'', body = None\<rparr>"

definition sampleIssue :: issue where
  "sampleIssue =
     \<lparr>issue.type = ''style'', severity = ''low'', line = Some 1,
      description = ''Use const'', suggestion = ''Replace var with const'',
      issue.filename = None\<rparr>"

definition sampleAnalysis :: analysis where
  "sampleAnalysis =
     \<lparr>summary = ''One style issue'', issues = Some [sampleIssue], overallRating = ''good'',
      recommendations = []\<rparr>"

text \<open>The analysis as the reasoning service writes it, and a \<open>JSON.parse\<close> for that text.\<close>

definition sampleJSON :: string where
  \<open>sampleJSON =
     ''{"summary": "One style issue", "issues": [{"type": "style", "severity": "low", "line": 1, "description": "Use const", "suggestion": "Replace var with const"}], "overallRating": "good", "recommendations": []}''\<close>

text \<open>An analysis that the reasoning service writes without the list of issues.\<close>

definition partialAnalysis :: analysis where
  "partialAnalysis =
     \<lparr>summary = ''Nothing to report'', issues = None, overallRating = ''good'',
      recommendations = []\<rparr>"

definition partialJSON :: string where
  \<open>partialJSON =
     ''{"summary": "Nothing to report", "overallRating": "good", "recommendations": []}''\<close>

definition sampleParse :: "string \<Rightarrow> string + analysis" where
  "sampleParse s =
     (if s = sampleJSON then Inr sampleAnalysis
      else if s = partialJSON then Inr partialAnalysis
      else Inl ''SyntaxError'')"

definition sampleWorld :: world where
  "sampleWorld =
     \<lparr>files = [''app.js'' \<mapsto> ''var a = 1''], comments = [], posted = [], requests = [],
      writes = []\<rparr>"

definition sampleFile :: changedFile where
  "sampleFile =
     \<lparr>changedFile.filename = ''app.js'', status = ''modified'', changedFile.additions = 1,
      changedFile.deletions = 1, patch = Some ''+var a = 1''\<rparr>"

definition sampleProcessEnv :: processEnv where
  "sampleProcessEnv =
     \<lparr>PR_NUMBER = Some ''7'', COMMENT_BODY = Some ''@fixbot apply'', GITHUB_TOKEN = Some ''t'',
      CLAUDE_API_KEY = Some ''k''\<rparr>"

definition sampleEnv :: "changedFile list \<Rightarrow> string + response \<Rightarrow> (string \<Rightarrow> string + response) \<Rightarrow> env" where
  "sampleEnv changed analysisAnswer fixAnswer =
     \<lparr>octokit_pulls_get = Inr samplePR,
      octokit_pulls_listFiles = Inr changed,
      octokit_pulls_createReview = (\<lambda>b v. None),
      octokit_issues_createComment = (\<lambda>c. None),
      anthropic_messages_create =
        (\<lambda>p. case p of
               AnalysisPrompt c ctx \<Rightarrow> analysisAnswer
             | FixPrompt il c ctx \<Rightarrow> fixAnswer c
             | HealthCheckPrompt \<Rightarrow> Inr [Some ''MCP connection healthy'']),
      JSON_parse = sampleParse,
      RegExp_test = fragmentEngine,
      fs_writeFile = (\<lambda>f c. None)\<rparr>"

text \<open>
  A second changed file, and collaborators that change both files: the reasoning service
  analyses \<open>app.js\<close> as above and answers for any other file without the list of issues.
\<close>

definition otherFile :: changedFile where
  "otherFile =
     \<lparr>changedFile.filename = ''lib.js'', status = ''added'', changedFile.additions = 1,
      changedFile.deletions = 0, patch = Some ''+let b''\<rparr>"

definition answerPerFile :: "prompt \<Rightarrow> string + response" where
  "answerPerFile p =
     (case p of
        AnalysisPrompt c ctx \<Rightarrow>
          Inr [Some (if analysisContext.filename ctx = ''app.js'' then sampleJSON else partialJSON)]
      | FixPrompt il c ctx \<Rightarrow> Inr [Some c]
      | HealthCheckPrompt \<Rightarrow> Inr [Some ''MCP connection healthy''])"

definition partialEnv :: env where
  "partialEnv =
     (sampleEnv [sampleFile, otherFile] (Inr [Some sampleJSON]) (\<lambda>c. Inr [Some c]))
       \<lparr>anthropic_messages_create := answerPerFile\<rparr>"

section \<open>Properties\<close>

subsection \<open>Trigger parser\<close>

lemma includes_sublist: "str_includes s pat = sublist pat s"
  by (induction s) (auto simp: sublist_Cons_right)

lemma includes_mention_fix: "str_includes s ''@fixbot'' \<Longrightarrow> str_includes s ''fix''"
proof -
  assume "str_includes s ''@fixbot''"
  then obtain ps ss where "s = ps @ ''@fixbot'' @ ss"
    by (auto simp: includes_sublist sublist_def)
  then have "s = (ps @ ''@'') @ ''fix'' @ (''bot'' @ ss)"
    by simp
  then show ?thesis
    unfolding includes_sublist sublist_def by blast
qed

lemma parseFixRequest_no_mention:
  "\<not> str_includes (toLowerCase c) ''@fixbot'' \<Longrightarrow>
   parseFixRequest c = \<lparr>shouldFix = False, fixRequest.type = None, scope = None\<rparr>"
  by (simp add: parseFixRequest_def)

text \<open>
  The keyword \<open>fix\<close> is part of the mention token, so with the mention present the test
  for a keyword always succeeds: the result is decided by \<open>all\<close> alone, and the last
  \<open>return\<close> of \<open>parseFixRequest\<close> (scope \<open>suggested\<close>) is never reached.
\<close>

lemma parseFixRequest_mention:
  "str_includes (toLowerCase c) ''@fixbot'' \<Longrightarrow>
   parseFixRequest c =
     (if str_includes (toLowerCase c) ''all'' then
        \<lparr>shouldFix = True, fixRequest.type = Some ''general'', scope = Some ''all''\<rparr>
      else \<lparr>shouldFix = True, fixRequest.type = Some ''specific'', scope = Some ''targeted''\<rparr>)"
  by (simp add: parseFixRequest_def includes_mention_fix)

lemma parseFixRequest_never_suggested: "scope (parseFixRequest c) \<noteq> Some ''suggested''"
proof (cases "str_includes (toLowerCase c) ''@fixbot''")
  case True
  then show ?thesis by (simp add: parseFixRequest_mention)
next
  case False
  then show ?thesis by (simp add: parseFixRequest_no_mention)
qed

lemma parseFixRequest_examples:
  "parseFixRequest ''please @fixbot apply all'' =
     \<lparr>shouldFix = True, fixRequest.type = Some ''general'', scope = Some ''all''\<rparr>"
  "parseFixRequest ''@fixbot fix this'' =
     \<lparr>shouldFix = True, fixRequest.type = Some ''specific'', scope = Some ''targeted''\<rparr>"
  "parseFixRequest ''looks good'' = \<lparr>shouldFix = False, fixRequest.type = None, scope = None\<rparr>"
  by (simp_all add: parseFixRequest_def toLowerCase_def toLowerCase_char_def)

text \<open>
  C1. The claim has the comment \<open>@fixbot\<close> classified as a blanket request with scope
  \<open>suggested\<close>. The program answers type \<open>specific\<close> (the targeted intent) with scope
  \<open>targeted\<close>: the comment contains \<open>fix\<close>, inside the mention itself.
\<close>

theorem parseFixRequest_bare_mention:
  "parseFixRequest ''@fixbot'' =
     \<lparr>shouldFix = True, fixRequest.type = Some ''specific'', scope = Some ''targeted''\<rparr>"
  by (simp add: parseFixRequest_def toLowerCase_def toLowerCase_char_def)

subsection \<open>Risk classifier\<close>

text \<open>
  C2. An issue is auto-fixable exactly when its type is one of \<open>style\<close>, \<open>performance\<close>,
  \<open>refactor\<close> and its severity is not \<open>high\<close>; so no issue of severity \<open>high\<close> is, whatever
  its type, and no issue of another type is.
\<close>

theorem isAutoFixable_policy:
  "isAutoFixable i =
     (issue.type i \<in> {''style'', ''performance'', ''refactor''} \<and> severity i \<noteq> ''high'')
   \<and> (severity i = ''high'' \<longrightarrow> \<not> isAutoFixable i)
   \<and> (issue.type i \<notin> {''style'', ''performance'', ''refactor''} \<longrightarrow> \<not> isAutoFixable i)"
  by (auto simp: isAutoFixable_def)

theorem isAutoFixable_policy_witness:
  "severity \<lparr>issue.type = ''security'', severity = ''high'', line = None, description = ''d'',
             suggestion = ''s'', issue.filename = None\<rparr> = ''high''
   \<and> issue.type \<lparr>issue.type = ''security'', severity = ''high'', line = None, description = ''d'',
             suggestion = ''s'', issue.filename = None\<rparr> \<notin> {''style'', ''performance'', ''refactor''}
   \<and> \<not> isAutoFixable \<lparr>issue.type = ''security'', severity = ''high'', line = None,
             description = ''d'', suggestion = ''s'', issue.filename = None\<rparr>"
  using isAutoFixable_policy
    [of "\<lparr>issue.type = ''security'', severity = ''high'', line = None, description = ''d'',
          suggestion = ''s'', issue.filename = None\<rparr>"]
  by simp

subsection \<open>Artifact selection\<close>

text \<open>
  Whatever the engine answers, the selection is the sublist of the files on which no
  pattern matched, in the order of the input, and \<open>slice(0, n)\<close> keeps its first \<open>n\<close>.
\<close>

lemma filterFiles_filter:
  "filterFiles rt pats fs = Inr kept \<Longrightarrow>
   kept = filter (\<lambda>f. some rt pats (changedFile.filename f) = Inr False) fs"
  by (induction fs arbitrary: kept) (auto split: sum.splits if_splits)

lemma filterFiles_subseq: "filterFiles rt pats fs = Inr kept \<Longrightarrow> subseq kept fs"
  by (metis filterFiles_filter subseq_filter_left)

lemma selection_bounded:
  "filterFiles rt pats fs = Inr kept \<Longrightarrow>
   subseq (take n kept) fs \<and> prefix (take n kept) kept \<and> length (take n kept) \<le> n"
  using filterFiles_subseq[of rt pats fs kept]
  by (auto simp: take_is_prefix intro: subseq_order.trans prefix_imp_subseq)

lemma some_fragmentEngine:
  "\<forall>p \<in> set pats. parseRegExp (regexSource p) \<noteq> None \<Longrightarrow>
   some fragmentEngine pats fname =
     Inr (\<exists>p \<in> set pats. test (the (parseRegExp (regexSource p))) fname)"
  by (induction pats) (auto simp: fragmentEngine_def RegExp_fragment_def split: sum.splits bool.splits)

text \<open>
  Patterns without \<open>**\<close>. Such a pattern, written with stars, dots and characters that
  are no metacharacter, is left alone by the first replacement, and its regular
  expression matches every name that the pattern matches as a glob: a file whose path
  matches one of these patterns is never selected.
\<close>

lemma replaceStarStar_id: "\<not> sublist ''**'' p \<Longrightarrow> replaceStarStar p = p"
proof (induction p rule: replaceStarStar.induct)
  case (1 a b cs)
  from "1.prems" have ab: "\<not> (a = CHR ''*'' \<and> b = CHR ''*'')"
    by (auto simp: sublist_Cons_right)
  from "1.prems" have "\<not> sublist ''**'' (b # cs)"
    by (auto simp: sublist_Cons_right)
  with 1 ab show ?case by auto
qed simp_all

lemma parse_replaceStar:
  "\<forall>c \<in> set p. c = CHR ''*'' \<or> c = CHR ''.'' \<or> (c \<notin> set metaChars \<and> c \<noteq> CHR ''['') \<Longrightarrow>
   parseRegExp (replaceStar p) = Some (map atomOf p)"
proof (induction p)
  case Nil
  then show ?case by (simp add: replaceStar_def)
next
  case (Cons c p)
  then have ih: "parseRegExp (replaceStar p) = Some (map atomOf p)" by simp
  have r: "replaceStar (c # p) = (if c = CHR ''*'' then ''[^/]*'' else [c]) @ replaceStar p"
    by (simp add: replaceStar_def)
  from Cons.prems have c: "c = CHR ''*'' \<or> c = CHR ''.'' \<or> (c \<notin> set metaChars \<and> c \<noteq> CHR ''['')"
    by simp
  then show ?case
    unfolding r using ih by (auto simp: atomOf_def metaChars_def)
qed

lemma atomOf_simps:
  "atomOf (CHR ''*'') = NotSlashStar"
  "atomOf (CHR ''.'') = Dot"
  "c \<noteq> CHR ''*'' \<Longrightarrow> c \<noteq> CHR ''.'' \<Longrightarrow> atomOf c = Lit c"
  by (simp_all add: atomOf_def)

lemma glob_matchesAt:
  "\<not> sublist ''**'' p \<Longrightarrow> globMatch p s \<Longrightarrow> matchesAt (map atomOf p) s"
proof (induction p s rule: globMatch.induct)
  case (1 s)
  then show ?case by simp
next
  case (2 c p s)
  from "2.prems"(1) have np: "\<not> sublist ''**'' p"
    by (auto simp: sublist_Cons_right)
  show ?case
  proof (cases "c = CHR ''*''")
    case True
    with "2.prems"(1) have nss: "\<not> (c = CHR ''*'' \<and> p \<noteq> [] \<and> hd p = CHR ''*'')"
      by (cases p) (auto simp: sublist_Cons_right)
    from "2.prems"(2) True nss
    have g: "globMatch p s \<or> (case s of [] \<Rightarrow> False | x # xs \<Rightarrow> x \<noteq> CHR ''/'' \<and> globMatch (c # p) xs)"
      by auto
    have hd: "map atomOf (c # p) = NotSlashStar # map atomOf p"
      using True by (simp add: atomOf_simps)
    from g show ?thesis
    proof
      assume "globMatch p s"
      with "2.IH"(3)[OF nss True np] have "matchesAt (map atomOf p) s" .
      then show ?thesis
        unfolding hd by simp
    next
      assume a: "case s of [] \<Rightarrow> False | x # xs \<Rightarrow> x \<noteq> CHR ''/'' \<and> globMatch (c # p) xs"
      then obtain x xs where s: "s = x # xs" and x: "x \<noteq> CHR ''/''" and g': "globMatch (c # p) xs"
        by (cases s) auto
      from "2.IH"(4)[OF nss True s "2.prems"(1) g']
      have m: "matchesAt (NotSlashStar # map atomOf p) xs"
        unfolding hd .
      have "matchesAt (NotSlashStar # map atomOf p) (x # xs)"
        using x m by (subst matchesAt.simps(4)) (simp del: matchesAt.simps)
      then show ?thesis
        unfolding hd s .
    qed
  next
    case False
    then have nss: "\<not> (c = CHR ''*'' \<and> p \<noteq> [] \<and> hd p = CHR ''*'')" by simp
    from False "2.prems"(2) obtain x xs where s: "s = x # xs" and x: "x = c" and g': "globMatch p xs"
      by (cases s) auto
    from "2.IH"(5)[OF nss False s np g']
    have m: "matchesAt (map atomOf p) xs" .
    show ?thesis
    proof (cases "c = CHR ''.''")
      case True
      then have "map atomOf (c # p) = Dot # map atomOf p" by (simp add: atomOf_simps)
      with s x m True show ?thesis by (simp add: lineTerminator_def)
    next
      case F2: False
      with False have "map atomOf (c # p) = Lit c # map atomOf p" by (simp add: atomOf_simps)
      with s x m show ?thesis by simp
    qed
  qed
qed

lemma matchesAt_test: "matchesAt r s \<Longrightarrow> test r s"
  by (cases s) auto


lemma plain_pattern_source:
  assumes "\<not> sublist ''**'' p"
    and "\<forall>c \<in> set p. c = CHR ''*'' \<or> c = CHR ''.'' \<or> (c \<notin> set metaChars \<and> c \<noteq> CHR ''['')"
  shows "parseRegExp (regexSource p) = Some (map atomOf p)"
  using assms by (simp add: regexSource_def replaceStarStar_id parse_replaceStar)

lemma filterFiles_excludes_plain_glob:
  assumes pats: "\<forall>p \<in> set pats. \<not> sublist ''**'' p \<and>
      (\<forall>c \<in> set p. c = CHR ''*'' \<or> c = CHR ''.'' \<or> (c \<notin> set metaChars \<and> c \<noteq> CHR ''[''))"
    and kept: "filterFiles fragmentEngine pats fs = Inr kept"
    and f: "f \<in> set kept"
  shows "\<not> (\<exists>p \<in> set pats. globMatch p (changedFile.filename f))"
proof
  assume "\<exists>p \<in> set pats. globMatch p (changedFile.filename f)"
  then obtain p where p: "p \<in> set pats" and g: "globMatch p (changedFile.filename f)"
    by blast
  from pats p have src: "parseRegExp (regexSource p) = Some (map atomOf p)"
    by (intro plain_pattern_source) auto
  from pats p g have "test (map atomOf p) (changedFile.filename f)"
    by (intro matchesAt_test glob_matchesAt) auto
  with src p have ex: "\<exists>p \<in> set pats. test (the (parseRegExp (regexSource p))) (changedFile.filename f)"
    by force
  from pats have "\<forall>p \<in> set pats. parseRegExp (regexSource p) \<noteq> None"
    using plain_pattern_source by force
  from some_fragmentEngine[OF this, of "changedFile.filename f"] ex
  have "some fragmentEngine pats (changedFile.filename f) = Inr True"
    by simp
  moreover from filterFiles_filter[OF kept] f
  have "some fragmentEngine pats (changedFile.filename f) = Inr False"
    by simp
  ultimately show False by simp
qed

text \<open>
  The second replacement rewrites the star of the \<open>.*\<close> that the first one wrote: \<open>**\<close>
  ends as \<open>.[^/]*\<close>, one character followed by characters other than \<open>/\<close>.
\<close>

lemma regexSource_star_star: "regexSource ''src/**/test.js'' = ''src/.[^/]*/test.js''"
  by (simp add: regexSource_def replaceStar_def)

lemma fragmentEngine_nested: "fragmentEngine ''src/.[^/]*/test.js'' ''src/a/b/test.js'' = Inr False"
  by (simp add: fragmentEngine_def RegExp_fragment_def metaChars_def lineTerminator_def)

text \<open>For every engine, the answer for that pattern is the engine's answer for this source.\<close>

lemma filterFiles_one_pattern:
  "filterFiles rt [''src/**/test.js''] [f] =
     (case rt ''src/.[^/]*/test.js'' (changedFile.filename f) of
        Inl err \<Rightarrow> Inl err
      | Inr b \<Rightarrow> Inr (if b then [] else [f]))"
  by (simp add: regexSource_star_star split: sum.splits bool.splits)

text \<open>
  C6. The claim has the selection never return a file whose path matches an exclusion
  pattern, \<open>**\<close> standing for any run of characters, separators included. With the one
  pattern \<open>src/**/test.js\<close> the file \<open>src/a/b/test.js\<close> matches the pattern in that
  reading, and \<open>filterFiles\<close> returns it.
\<close>

theorem filterFiles_keeps_excluded:
  "filterFiles fragmentEngine [''src/**/test.js'']
     [\<lparr>changedFile.filename = ''src/a/b/test.js'', status = ''modified'',
       changedFile.additions = 1, changedFile.deletions = 0, patch = Some ''+x''\<rparr>] =
     Inr [\<lparr>changedFile.filename = ''src/a/b/test.js'', status = ''modified'',
       changedFile.additions = 1, changedFile.deletions = 0, patch = Some ''+x''\<rparr>]
   \<and> globMatch ''src/**/test.js'' ''src/a/b/test.js''"
  by (simp add: regexSource_star_star fragmentEngine_nested)

subsection \<open>Grouping issues by file\<close>

lemma map_fst_push: "map fst (push g k i) = map fst g"
  by (induction g) (auto simp: push_def)

lemma map_of_push:
  "map_of (push g k i) k' = (if k' = k then map_option (\<lambda>v. v @ [i]) (map_of g k) else map_of g k')"
  by (induction g) (auto simp: push_def)

lemma groupStep_keys:
  assumes "groupStep g i = Inr g'" and "distinct (map fst g)"
  shows "distinct (map fst g') \<and> set (map fst g') = insert (propertyKey i) (set (map fst g))"
proof (cases "map_of g (propertyKey i)")
  case None
  with assms(1) have g': "g' = g @ [(propertyKey i, [i])]"
    by (auto simp: groupStep_def Let_def split: if_splits)
  from None have "propertyKey i \<notin> set (map fst g)"
    by (simp add: map_of_eq_None_iff)
  with assms(2) g' show ?thesis by auto
next
  case (Some v)
  with assms(1) have g': "map fst g' = map fst g"
    by (auto simp: groupStep_def Let_def map_fst_push)
  from Some have "propertyKey i \<in> set (map fst g)"
    by (metis map_of_eq_None_iff option.distinct(1) set_map)
  with assms(2) show ?thesis
    unfolding g' by (simp add: insert_absorb)
qed

lemma groupStep_map_of:
  "groupStep g i = Inr g' \<Longrightarrow>
   map_of g' k =
     (if propertyKey i = k then Some ((case map_of g k of None \<Rightarrow> [] | Some v \<Rightarrow> v) @ [i])
      else map_of g k)"
  by (auto simp: groupStep_def Let_def map_of_push map_add_def split: option.splits if_splits)

lemma reduce_groups:
  "reduce g xs = Inr g' \<Longrightarrow>
   distinct (map fst g) \<Longrightarrow>
   distinct (map fst g') \<and>
   set (map fst g') = set (map fst g) \<union> propertyKey ` set xs \<and>
   (\<forall>k. lookup g' k = lookup g k @ filter (\<lambda>i. propertyKey i = k) xs)"
proof (induction xs arbitrary: g)
  case Nil
  then show ?case by simp
next
  case (Cons x xs)
  from Cons.prems(1) obtain g1 where step: "groupStep g x = Inr g1" and rest: "reduce g1 xs = Inr g'"
    by (auto split: sum.splits)
  from groupStep_keys[OF step Cons.prems(2)]
  have d1: "distinct (map fst g1)" and k1: "set (map fst g1) = insert (propertyKey x) (set (map fst g))"
    by simp_all
  from Cons.IH[OF rest d1]
  have ih: "distinct (map fst g')" "set (map fst g') = set (map fst g1) \<union> propertyKey ` set xs"
    "\<And>k. lookup g' k = lookup g1 k @ filter (\<lambda>i. propertyKey i = k) xs"
    by simp_all
  have "lookup g1 k = lookup g k @ (if propertyKey x = k then [x] else [])" for k
    using groupStep_map_of[OF step, of k] by (simp add: lookup_def split: option.splits)
  with ih k1 show ?case by auto
qed

text \<open>
  When \<open>groupIssuesByFile\<close> returns, the groups partition the input: the keys are
  distinct and are the file names of the input, and the group under a key is the
  sublist of the input's issues with that file name, in their order, never empty.
\<close>

lemma groupIssuesByFile_partition:
  assumes "groupIssuesByFile xs = Inr g"
  shows "distinct (map fst g)"
    and "set (map fst g) = propertyKey ` set xs"
    and "(k, v) \<in> set g \<Longrightarrow> v = filter (\<lambda>i. propertyKey i = k) xs \<and> v \<noteq> []"
proof -
  from assms have r: "reduce [] xs = Inr g"
    by (simp add: groupIssuesByFile_def)
  from reduce_groups[OF r]
  have d: "distinct (map fst g)" and ks: "set (map fst g) = propertyKey ` set xs"
    and l: "\<And>k. lookup g k = filter (\<lambda>i. propertyKey i = k) xs"
    by (simp_all add: lookup_def)
  show "distinct (map fst g)" by (rule d)
  show "set (map fst g) = propertyKey ` set xs" by (rule ks)
  show "v = filter (\<lambda>i. propertyKey i = k) xs \<and> v \<noteq> []" if kv: "(k, v) \<in> set g"
  proof -
    from d kv have "map_of g k = Some v" by simp
    then have v: "v = filter (\<lambda>i. propertyKey i = k) xs"
      using l[of k] by (simp add: lookup_def)
    from kv have "k \<in> set (map fst g)" by force
    with ks obtain i where "i \<in> set xs" "propertyKey i = k" by auto
    then have "filter (\<lambda>i. propertyKey i = k) xs \<noteq> []"
      by (auto simp: filter_empty_conv)
    with v show ?thesis by simp
  qed
qed

lemma reduce_returns:
  "\<forall>i \<in> set xs. propertyKey i \<notin> set objectPrototypeKeys \<Longrightarrow> \<exists>g'. reduce g xs = Inr g'"
  by (induction xs arbitrary: g) (auto simp: groupStep_def Let_def split: option.splits)

lemma reduce_raises:
  "\<exists>i \<in> set xs. propertyKey i \<in> set objectPrototypeKeys \<Longrightarrow>
   set (map fst g) \<inter> set objectPrototypeKeys = {} \<Longrightarrow>
   \<exists>err. reduce g xs = Inl err"
proof (induction xs arbitrary: g)
  case Nil
  then show ?case by simp
next
  case (Cons x xs)
  show ?case
  proof (cases "groupStep g x")
    case (Inl err)
    then show ?thesis by simp
  next
    case (Inr g1)
    then have nx: "propertyKey x \<notin> set objectPrototypeKeys"
      using Cons.prems(2)
      by (auto simp: groupStep_def Let_def split: option.splits if_splits dest!: map_of_SomeD)
    have keys: "set (map fst g1) \<subseteq> insert (propertyKey x) (set (map fst g))"
      using Inr
      by (auto simp: groupStep_def Let_def map_fst_push split: option.splits if_splits
          simp flip: set_map)
    from nx Cons.prems(1) have "\<exists>i \<in> set xs. propertyKey i \<in> set objectPrototypeKeys"
      by auto
    moreover from keys nx Cons.prems(2) have "set (map fst g1) \<inter> set objectPrototypeKeys = {}"
      by blast
    ultimately have "\<exists>err. reduce g1 xs = Inl err"
      by (rule Cons.IH)
    with Inr show ?thesis by simp
  qed
qed

text \<open>
  C10. The claim has every list of issues partitioned. An issue whose file name is a
  key of \<open>Object.prototype\<close>, here \<open>constructor\<close>, ends the grouping with a TypeError:
  \<open>groups['constructor']\<close> is the inherited function, no array is stored, and \<open>push\<close> is
  called on the function.
\<close>

theorem groupIssuesByFile_constructor:
  "groupIssuesByFile
     [\<lparr>issue.type = ''style'', severity = ''low'', line = Some 1, description = ''d'',
       suggestion = ''s'', issue.filename = Some ''constructor''\<rparr>] =
   Inl ''TypeError: groups[filename].push is not a function''"
  by (simp add: groupIssuesByFile_def groupStep_def propertyKey_def objectPrototypeKeys_def)

subsection \<open>The monad of actions\<close>

lemma bind_Inr: "m w = (Inr a, w') \<Longrightarrow> bind m f w = f a w'"
  by (simp add: bind_def)

lemma bind_Inl: "m w = (Inl err, w') \<Longrightarrow> bind m f w = (Inl err, w')"
  by (simp add: bind_def)

lemma try_catch_Inr: "m w = (Inr a, w') \<Longrightarrow> try_catch m h w = (Inr a, w')"
  by (simp add: try_catch_def)

lemma try_catch_Inl: "m w = (Inl err, w') \<Longrightarrow> try_catch m h w = h err w'"
  by (simp add: try_catch_def)

subsection \<open>Verdict of a review\<close>

lemma reduceIssues_sum:
  "list_all (\<lambda>r. issues (analysis r) \<noteq> None) rs \<Longrightarrow>
   reduceIssues f n rs = Inr (n + sum_list (map (\<lambda>r. f (issuesOf (analysis r))) rs))"
  by (induction rs arbitrary: n) (auto simp: issuesOf_def)

lemma reduceIssues_raises:
  "\<not> list_all (\<lambda>r. issues (analysis r) \<noteq> None) rs \<Longrightarrow> reduceIssues f n rs = Inl ''TypeError''"
  by (induction rs arbitrary: n) (auto split: option.splits)

lemma totalIssues_global:
  "list_all (\<lambda>r. issues (analysis r) \<noteq> None) reviews \<Longrightarrow>
   totalIssues reviews = Inr (length (allIssues reviews))"
  by (simp add: totalIssues_def allIssues_def reduceIssues_sum length_concat comp_def)

lemma highSeverityIssues_global:
  "list_all (\<lambda>r. issues (analysis r) \<noteq> None) reviews \<Longrightarrow>
   highSeverityIssues reviews =
     Inr (length (filter (\<lambda>i. severity i = ''high'') (allIssues reviews)))"
  by (simp add: highSeverityIssues_def allIssues_def reduceIssues_sum length_concat filter_concat
      comp_def)

lemma generateSummary_malformed:
  "\<not> list_all (\<lambda>r. issues (analysis r) \<noteq> None) reviews \<Longrightarrow>
   generateSummary e reviews pr w = (Inr (), w)"
  by (simp add: generateSummary_def generateSummary_try_def try_catch_def bind_def lift_def
      return_def totalIssues_def reduceIssues_raises)

text \<open>
  C3. \<open>generateSummary\<close> never raises and posts at most one review, with body \<open>b\<close> and
  event \<open>v\<close> (it is posted when every result has its \<open>issues\<close> and the platform accepts
  it; a result without \<open>issues\<close> makes the counting raise, and no review is posted).
  The counts of \<open>b\<close> are global,
  over all issues of all results, and the verdict is the first match of: a
  high-severity issue, request changes; more than five issues, a comment
  \<open>NEEDS IMPROVEMENT\<close>; an issue, a comment \<open>APPROVED WITH SUGGESTIONS\<close>; otherwise a comment
  \<open>APPROVED\<close>. So one high-severity issue forces request changes whatever the total.
\<close>

theorem generateSummary_verdict:
  "\<exists>b v.
     arg_totalIssues b = length (allIssues reviews) \<and>
     arg_highSeverityIssues b = length (filter (\<lambda>i. severity i = ''high'') (allIssues reviews)) \<and>
     (v, arg_overallAssessment b) =
       (if arg_highSeverityIssues b > 0 then
          (''REQUEST_CHANGES'', '':x: **CHANGES REQUESTED** - High severity issues found'')
        else if arg_totalIssues b > 5 then
          (''COMMENT'', '':warning: **NEEDS IMPROVEMENT** - Multiple issues found'')
        else if arg_totalIssues b > 0 then
          (''COMMENT'', '':memo: **APPROVED WITH SUGGESTIONS** - Minor issues found'')
        else (''COMMENT'', '':white_check_mark: **APPROVED** - Code looks good!'')) \<and>
     generateSummary e reviews pr w =
       (Inr (),
        if list_all (\<lambda>r. issues (analysis r) \<noteq> None) reviews \<and>
           octokit_pulls_createReview e b v = None
        then w\<lparr>posted := posted w @ [(b, v)]\<rparr> else w)"
proof -
  let ?total = "length (allIssues reviews)"
  let ?high = "length (filter (\<lambda>i. severity i = ''high'') (allIssues reviews))"
  let ?b = "\<lparr>arg_reviews = reviews, arg_pullRequest = pr,
             arg_overallAssessment = fst (overallAssessment ?total ?high),
             arg_emoji = snd (overallAssessment ?total ?high),
             arg_totalIssues = ?total, arg_highSeverityIssues = ?high\<rparr>"
  let ?v = "if ?high > 0 then ''REQUEST_CHANGES'' else ''COMMENT''"
  have run: "generateSummary e reviews pr w =
       (Inr (),
        if list_all (\<lambda>r. issues (analysis r) \<noteq> None) reviews \<and>
           octokit_pulls_createReview e ?b ?v = None
        then w\<lparr>posted := posted w @ [(?b, ?v)]\<rparr> else w)"
  proof (cases "list_all (\<lambda>r. issues (analysis r) \<noteq> None) reviews")
    case True
    then show ?thesis
      by (auto simp: generateSummary_def generateSummary_try_def try_catch_def createReview_def
          bind_def lift_def return_def Let_def totalIssues_global highSeverityIssues_global
          split: option.splits)
  next
    case False
    then show ?thesis
      by (simp add: generateSummary_malformed)
  qed
  have verdict: "(?v, arg_overallAssessment ?b) =
       (if arg_highSeverityIssues ?b > 0 then
          (''REQUEST_CHANGES'', '':x: **CHANGES REQUESTED** - High severity issues found'')
        else if arg_totalIssues ?b > 5 then
          (''COMMENT'', '':warning: **NEEDS IMPROVEMENT** - Multiple issues found'')
        else if arg_totalIssues ?b > 0 then
          (''COMMENT'', '':memo: **APPROVED WITH SUGGESTIONS** - Minor issues found'')
        else (''COMMENT'', '':white_check_mark: **APPROVED** - Code looks good!''))"
    by (simp add: overallAssessment_def)
  have counts: "arg_totalIssues ?b = length (allIssues reviews)"
    "arg_highSeverityIssues ?b = length (filter (\<lambda>i. severity i = ''high'') (allIssues reviews))"
    by simp_all
  from counts verdict run show ?thesis by blast
qed

text \<open>
  The two examples of the specification: one high-severity issue gives request changes,
  six low-severity issues give the comment \<open>NEEDS IMPROVEMENT\<close>.
\<close>

lemma overallAssessment_examples:
  "overallAssessment 1 1 = ('':x: **CHANGES REQUESTED** - High severity issues found'', '':x:'')"
  "overallAssessment 6 0 = ('':warning: **NEEDS IMPROVEMENT** - Multiple issues found'', '':warning:'')"
  by (simp_all add: overallAssessment_def)

subsection \<open>Interpreting the response of an analysis\<close>

text \<open>There is a match exactly when some \<open>{\<close> of the response is followed by a \<open>}\<close>.\<close>

lemma jsonMatch_None_iff:
  "jsonMatch content = None \<longleftrightarrow> \<not> (\<exists>a b c. content = a @ CHR ''{'' # b @ CHR ''}'' # c)"
proof (cases "dropWhile (\<lambda>c. c \<noteq> CHR ''{'') content")
  case Nil
  then have "CHR ''{'' \<notin> set content"
    by (auto simp: dropWhile_eq_Nil_conv)
  then have "\<not> (\<exists>a b c. content = a @ CHR ''{'' # b @ CHR ''}'' # c)"
  proof (intro notI, elim exE)
    fix a b c
    assume "content = a @ CHR ''{'' # b @ CHR ''}'' # c"
    then have "CHR ''{'' \<in> set content" by simp
    with \<open>CHR ''{'' \<notin> set content\<close> show False by simp
  qed
  moreover have "jsonMatch content = None"
    unfolding jsonMatch_def Nil by simp
  ultimately show ?thesis by simp
next
  case (Cons x rest)
  then have x: "x = CHR ''{''"
    using hd_dropWhile[of "\<lambda>c. c \<noteq> CHR ''{''" content] by auto
  define pre where "pre = takeWhile (\<lambda>c. c \<noteq> CHR ''{'') content"
  have content: "content = pre @ CHR ''{'' # rest"
    using takeWhile_dropWhile_id[of "\<lambda>c. c \<noteq> CHR ''{''" content] Cons x
    by (simp add: pre_def)
  have pre: "CHR ''{'' \<notin> set pre"
    by (auto simp: pre_def dest: set_takeWhileD)
  have "(CHR ''}'' \<in> set rest) \<longleftrightarrow> (\<exists>a b c. content = a @ CHR ''{'' # b @ CHR ''}'' # c)"
  proof
    assume "CHR ''}'' \<in> set rest"
    then obtain b c where "rest = b @ CHR ''}'' # c"
      by (auto dest: split_list)
    with content show "\<exists>a b c. content = a @ CHR ''{'' # b @ CHR ''}'' # c"
      by blast
  next
    assume "\<exists>a b c. content = a @ CHR ''{'' # b @ CHR ''}'' # c"
    then obtain a b c where d: "pre @ CHR ''{'' # rest = a @ CHR ''{'' # b @ CHR ''}'' # c"
      using content by metis
    then obtain us where
      "(pre = a @ us \<and> us @ CHR ''{'' # rest = CHR ''{'' # b @ CHR ''}'' # c) \<or>
       (pre @ us = a \<and> CHR ''{'' # rest = us @ CHR ''{'' # b @ CHR ''}'' # c)"
      unfolding append_eq_append_conv2 by blast
    then show "CHR ''}'' \<in> set rest"
    proof (elim disjE conjE)
      assume p: "pre = a @ us" and e: "us @ CHR ''{'' # rest = CHR ''{'' # b @ CHR ''}'' # c"
      show ?thesis
      proof (cases us)
        case Nil
        with e show ?thesis by simp
      next
        case (Cons u us')
        with e have "u = CHR ''{''" by simp
        with p Cons pre show ?thesis by simp
      qed
    next
      assume e: "CHR ''{'' # rest = us @ CHR ''{'' # b @ CHR ''}'' # c"
      show ?thesis
      proof (cases us)
        case Nil
        with e show ?thesis by simp
      next
        case (Cons u us')
        with e have "rest = us' @ CHR ''{'' # b @ CHR ''}'' # c" by simp
        then show ?thesis by simp
      qed
    qed
  qed
  with Cons show ?thesis
    by (simp add: jsonMatch_def)
qed

text \<open>
  C4, as the program has it. With no match in the text of the first block the result
  is the degraded one, its summary the first 200 characters of the response followed
  by \<open>...\<close>, with the one recommendation \<open>Manual review recommended\<close>. With a match that
  \<open>JSON.parse\<close> rejects the result is another: the summary \<open>Error parsing response\<close> and no
  recommendation. Both have no issues and the rating \<open>unknown\<close>, and \<open>parseResponse\<close>
  never raises, whatever the response.
\<close>

theorem parseResponse_degraded:
  "(jsonMatch content = None \<longrightarrow>
      parseResponse jp (Some content # blocks) =
        Inr \<lparr>summary = take 200 content @ ''...'', issues = Some [], overallRating = ''unknown'',
             recommendations = [''Manual review recommended'']\<rparr>)
   \<and> (jsonMatch content = Some m \<and> jp m = Inl err \<longrightarrow>
        parseResponse jp (Some content # blocks) =
          Inr \<lparr>summary = ''Error parsing response'', issues = Some [], overallRating = ''unknown'',
               recommendations = []\<rparr>)
   \<and> (\<exists>a. parseResponse jp response = Inr a)"
  by (auto simp: parseResponse_def parseResponse_try_def parseTextResponse_def
      split: sum.splits list.splits option.splits)

theorem parseResponse_degraded_witness:
  "jsonMatch ''looks fine'' = None
   \<and> parseResponse (\<lambda>s. Inl ''SyntaxError'') [Some ''looks fine''] =
       Inr \<lparr>summary = ''looks fine...'', issues = Some [], overallRating = ''unknown'',
            recommendations = [''Manual review recommended'']\<rparr>
   \<and> jsonMatch ''see {oops} here'' = Some ''{oops}''
   \<and> parseResponse (\<lambda>s. Inl ''SyntaxError'') [Some ''see {oops} here''] =
       Inr \<lparr>summary = ''Error parsing response'', issues = Some [], overallRating = ''unknown'',
            recommendations = []\<rparr>"
proof -
  have n: "jsonMatch ''looks fine'' = None"
    by (simp add: jsonMatch_def)
  have s: "jsonMatch ''see {oops} here'' = Some ''{oops}''"
    by (simp add: jsonMatch_def)
  from n s
    parseResponse_degraded[of "''looks fine''" "\<lambda>s. Inl ''SyntaxError''" "[]" "''{oops}''" "''SyntaxError''" "[]"]
    parseResponse_degraded[of "''see {oops} here''" "\<lambda>s. Inl ''SyntaxError''" "[]" "''{oops}''" "''SyntaxError''" "[]"]
  show ?thesis by simp
qed

text \<open>
  C4 as claimed does not hold: the summary of the degraded result is not the first 200
  characters of the response (here \<open>looks fine\<close>), and a response whose match does not
  parse (here \<open>see {oops} here\<close>) gives neither that summary nor a recommendation.
\<close>

theorem parseResponse_fallback_counterexample:
  "parseResponse (\<lambda>s. Inl ''SyntaxError'') [Some ''looks fine''] =
       Inr \<lparr>summary = ''looks fine...'', issues = Some [], overallRating = ''unknown'',
            recommendations = [''Manual review recommended'']\<rparr>
   \<and> ''looks fine...'' \<noteq> take 200 ''looks fine''
   \<and> parseResponse (\<lambda>s. Inl ''SyntaxError'') [Some ''see {oops} here''] =
       Inr \<lparr>summary = ''Error parsing response'', issues = Some [], overallRating = ''unknown'',
            recommendations = []\<rparr>
   \<and> ''Error parsing response'' \<noteq> take 200 ''see {oops} here''"
  by (simp add: parseResponse_def parseResponse_try_def parseTextResponse_def jsonMatch_def)

subsection \<open>Fixing one file\<close>

lemma generateFixes_run:
  "generateFixes e il c ctx w =
     (case anthropic_messages_create e (FixPrompt il c ctx) of
        Inl err \<Rightarrow> Inl err
      | Inr response \<Rightarrow> Inr (parseFixes response),
      w\<lparr>requests := requests w @ [FixPrompt il c ctx]\<rparr>)"
  by (simp add: generateFixes_def bind_def messages_create_def return_def split: sum.splits)

lemma analyzeCode_run:
  "analyzeCode e c ctx w =
     (case anthropic_messages_create e (AnalysisPrompt c ctx) of
        Inl err \<Rightarrow> Inl err
      | Inr response \<Rightarrow> parseResponse (JSON_parse e) response,
      w\<lparr>requests := requests w @ [AnalysisPrompt c ctx]\<rparr>)"
  by (simp add: analyzeCode_def bind_def messages_create_def lift_def split: sum.splits)

lemma writeFileContent_run:
  "writeFileContent e fname c w =
     (case fs_writeFile e fname c of
        Some err \<Rightarrow> (Inl err, w\<lparr>writes := writes w @ [(fname, c)]\<rparr>)
      | None \<Rightarrow> (Inr (), w\<lparr>writes := writes w @ [(fname, c)], files := (files w)(fname \<mapsto> c)\<rparr>))"
  by (simp add: writeFileContent_def Let_def split: option.splits)

lemmas fix_defs =
  fixFileIssues_def fixFileIssues_try_def analyzeAndFixFile_def analyzeAndFixFile_try_def
  try_catch_def bind_def getCurrentFileContent_def return_def Let_def
  generateFixes_run analyzeCode_run writeFileContent_run issuesOf_def

lemma fixFileIssues_unchanged:
  "files w fname = Some content \<Longrightarrow>
   fst (generateFixes e il content (fixContext fname pr) w) = Inr r \<Longrightarrow>
   r = None \<or> r = Some content \<Longrightarrow>
   fst (fixFileIssues e fname il pr w) = Inr noFix \<and>
   writes (snd (fixFileIssues e fname il pr w)) = writes w \<and>
   files (snd (fixFileIssues e fname il pr w)) = files w"
  by (auto simp: fix_defs split: sum.splits option.splits)

lemma analyzeAndFixFile_unchanged:
  "files w (changedFile.filename f) = Some content \<Longrightarrow>
   fst (analyzeCode e content (fixContext (changedFile.filename f) pr) w) = Inr a \<Longrightarrow>
   fst (generateFixes e (filter isAutoFixable (issuesOf a)) content
          (fixContext (changedFile.filename f) pr) w) = Inr r \<Longrightarrow>
   r = None \<or> r = Some content \<Longrightarrow>
   fst (analyzeAndFixFile cfg e f pr w) = Inr noFix \<and>
   writes (snd (analyzeAndFixFile cfg e f pr w)) = writes w \<and>
   files (snd (analyzeAndFixFile cfg e f pr w)) = files w"
  by (auto simp: fix_defs split: sum.splits option.splits)

lemma fixFileIssues_unreadable:
  "files w fname = None \<Longrightarrow> fixFileIssues e fname il pr w = (Inr noFix, w)"
  by (simp add: fix_defs)

lemma fixFileIssues_write_content:
  "files w fname = Some content \<Longrightarrow>
   writes (snd (fixFileIssues e fname il pr w)) \<noteq> writes w \<or>
   files (snd (fixFileIssues e fname il pr w)) \<noteq> files w \<or>
   fst (fixFileIssues e fname il pr w) \<noteq> Inr noFix \<Longrightarrow>
   \<exists>fixed.
     fst (generateFixes e il content (fixContext fname pr) w) = Inr (Some fixed) \<and>
     fixed \<noteq> content \<and>
     writes (snd (fixFileIssues e fname il pr w)) = writes w @ [(fname, fixed)]"
  by (auto simp: fix_defs split: sum.splits option.splits if_splits)

lemma fixFileIssues_write:
  assumes "writes (snd (fixFileIssues e fname il pr w)) \<noteq> writes w \<or>
   files (snd (fixFileIssues e fname il pr w)) \<noteq> files w \<or>
   fst (fixFileIssues e fname il pr w) \<noteq> Inr noFix"
  shows "\<exists>content fixed.
     files w fname = Some content \<and>
     fst (generateFixes e il content (fixContext fname pr) w) = Inr (Some fixed) \<and>
     fixed \<noteq> content \<and>
     writes (snd (fixFileIssues e fname il pr w)) = writes w @ [(fname, fixed)]"
proof (cases "files w fname")
  case None
  with assms show ?thesis by (simp add: fixFileIssues_unreadable)
next
  case (Some content)
  from fixFileIssues_write_content[OF Some assms] Some show ?thesis by blast
qed

lemma analyzeAndFixFile_unreadable:
  "files w (changedFile.filename f) = None \<Longrightarrow> analyzeAndFixFile cfg e f pr w = (Inr noFix, w)"
  by (simp add: fix_defs)

lemma analyzeAndFixFile_unanalyzed:
  "files w (changedFile.filename f) = Some content \<Longrightarrow>
   fst (analyzeCode e content (fixContext (changedFile.filename f) pr) w) = Inl err \<Longrightarrow>
   fst (analyzeAndFixFile cfg e f pr w) = Inr noFix \<and>
   writes (snd (analyzeAndFixFile cfg e f pr w)) = writes w \<and>
   files (snd (analyzeAndFixFile cfg e f pr w)) = files w"
  by (auto simp: fix_defs split: sum.splits option.splits if_splits)

lemma analyzeAndFixFile_write_content:
  "files w (changedFile.filename f) = Some content \<Longrightarrow>
   fst (analyzeCode e content (fixContext (changedFile.filename f) pr) w) = Inr a \<Longrightarrow>
   writes (snd (analyzeAndFixFile cfg e f pr w)) \<noteq> writes w \<or>
   files (snd (analyzeAndFixFile cfg e f pr w)) \<noteq> files w \<or>
   fst (analyzeAndFixFile cfg e f pr w) \<noteq> Inr noFix \<Longrightarrow>
   \<exists>fixed.
     fst (generateFixes e (filter isAutoFixable (issuesOf a)) content
            (fixContext (changedFile.filename f) pr) w) = Inr (Some fixed) \<and>
     fixed \<noteq> content \<and>
     writes (snd (analyzeAndFixFile cfg e f pr w)) = writes w @ [(changedFile.filename f, fixed)]"
  by (auto simp: fix_defs split: sum.splits option.splits if_splits)

lemma analyzeAndFixFile_write:
  assumes "writes (snd (analyzeAndFixFile cfg e f pr w)) \<noteq> writes w \<or>
   files (snd (analyzeAndFixFile cfg e f pr w)) \<noteq> files w \<or>
   fst (analyzeAndFixFile cfg e f pr w) \<noteq> Inr noFix"
  shows "\<exists>content a fixed.
     files w (changedFile.filename f) = Some content \<and>
     fst (analyzeCode e content (fixContext (changedFile.filename f) pr) w) = Inr a \<and>
     fst (generateFixes e (filter isAutoFixable (issuesOf a)) content
            (fixContext (changedFile.filename f) pr) w) = Inr (Some fixed) \<and>
     fixed \<noteq> content \<and>
     writes (snd (analyzeAndFixFile cfg e f pr w)) = writes w @ [(changedFile.filename f, fixed)]"
proof (cases "files w (changedFile.filename f)")
  case None
  with assms show ?thesis by (simp add: analyzeAndFixFile_unreadable)
next
  case (Some content)
  show ?thesis
  proof (cases "fst (analyzeCode e content (fixContext (changedFile.filename f) pr) w)")
    case (Inl err)
    from analyzeAndFixFile_unanalyzed[OF Some Inl] assms show ?thesis by simp
  next
    case (Inr a)
    from analyzeAndFixFile_write_content[OF Some Inr assms] Some Inr show ?thesis by blast
  qed
qed


text \<open>
  C5. In \<open>fixFileIssues\<close> and in \<open>analyzeAndFixFile\<close>: when \<open>generateFixes\<close> returns \<open>null\<close> or
  the content the file has, the result is the failed one with no fix applied, and
  \<open>fs.writeFile\<close> is not called (the list of its calls and the files are as before).
  And when \<open>fs.writeFile\<close> is called, it is called once, with a content that
  \<open>generateFixes\<close> returned and that differs from the original.
\<close>

theorem write_only_when_changed:
  "(files w fname = Some content \<and>
    fst (generateFixes e il content (fixContext fname pr) w) = Inr r \<and>
    (r = None \<or> r = Some content) \<longrightarrow>
      fst (fixFileIssues e fname il pr w) = Inr noFix \<and>
      writes (snd (fixFileIssues e fname il pr w)) = writes w \<and>
      files (snd (fixFileIssues e fname il pr w)) = files w)
   \<and> (files w (changedFile.filename f) = Some content \<and>
      fst (analyzeCode e content (fixContext (changedFile.filename f) pr) w) = Inr a \<and>
      fst (generateFixes e (filter isAutoFixable (issuesOf a)) content
             (fixContext (changedFile.filename f) pr) w) = Inr r \<and>
      (r = None \<or> r = Some content) \<longrightarrow>
        fst (analyzeAndFixFile cfg e f pr w) = Inr noFix \<and>
        writes (snd (analyzeAndFixFile cfg e f pr w)) = writes w \<and>
        files (snd (analyzeAndFixFile cfg e f pr w)) = files w)
   \<and> (writes (snd (fixFileIssues e fname il pr w)) \<noteq> writes w \<longrightarrow>
        (\<exists>content fixed.
           files w fname = Some content \<and>
           fst (generateFixes e il content (fixContext fname pr) w) = Inr (Some fixed) \<and>
           fixed \<noteq> content \<and>
           writes (snd (fixFileIssues e fname il pr w)) = writes w @ [(fname, fixed)]))
   \<and> (writes (snd (analyzeAndFixFile cfg e f pr w)) \<noteq> writes w \<longrightarrow>
        (\<exists>content a fixed.
           files w (changedFile.filename f) = Some content \<and>
           fst (analyzeCode e content (fixContext (changedFile.filename f) pr) w) = Inr a \<and>
           fst (generateFixes e (filter isAutoFixable (issuesOf a)) content
                  (fixContext (changedFile.filename f) pr) w) = Inr (Some fixed) \<and>
           fixed \<noteq> content \<and>
           writes (snd (analyzeAndFixFile cfg e f pr w)) =
             writes w @ [(changedFile.filename f, fixed)]))"
  using fixFileIssues_unchanged[of w fname content e il pr r]
    analyzeAndFixFile_unchanged[of w f content e pr a r cfg]
    fixFileIssues_write[of e fname il pr w]
    analyzeAndFixFile_write[of cfg e f pr w]
  by blast

lemma sample_supported: "supported config (detectLanguage ''app.js'')"
  by (simp add: supported_def detectLanguage_def split_pop_def toLowerCase_def toLowerCase_char_def
      languageMap_def config_def)

lemma sample_match: "jsonMatch sampleJSON = Some sampleJSON"
  by (simp add: jsonMatch_def sampleJSON_def)

lemma sample_parse: "parseResponse sampleParse [Some sampleJSON] = Inr sampleAnalysis"
  by (simp add: parseResponse_def parseResponse_try_def sample_match sampleParse_def)

lemma sample_issues:
  "issues sampleAnalysis = Some [sampleIssue]"
  "issuesOf sampleAnalysis = [sampleIssue]"
  by (simp_all add: sampleAnalysis_def issuesOf_def)

lemma sample_fixable: "isAutoFixable sampleIssue"
  by (simp add: sampleIssue_def isAutoFixable_def)

lemma parseFixes_plain: "parseFixes [Some ''var a = 1''] = Some ''var a = 1''"
  by (simp add: parseFixes_def)

lemma parseFixes_plain2: "parseFixes [Some ''const a = 1;''] = Some ''const a = 1;''"
  by (simp add: parseFixes_def)

theorem write_only_when_changed_witness:
  "files sampleWorld ''app.js'' = Some ''var a = 1''
   \<and> fst (generateFixes (sampleEnv [] (Inr [Some sampleJSON]) (\<lambda>c. Inr [Some c])) [sampleIssue]
          ''var a = 1'' (fixContext ''app.js'' samplePR) sampleWorld) = Inr (Some ''var a = 1'')
   \<and> fst (fixFileIssues (sampleEnv [] (Inr [Some sampleJSON]) (\<lambda>c. Inr [Some c])) ''app.js''
          [sampleIssue] samplePR sampleWorld) = Inr noFix
   \<and> writes (snd (fixFileIssues (sampleEnv [] (Inr [Some sampleJSON]) (\<lambda>c. Inr [Some c])) ''app.js''
          [sampleIssue] samplePR sampleWorld)) = []
   \<and> fst (analyzeCode (sampleEnv [] (Inr [Some sampleJSON]) (\<lambda>c. Inr [Some c])) ''var a = 1''
          (fixContext ''app.js'' samplePR) sampleWorld) = Inr sampleAnalysis
   \<and> fst (analyzeAndFixFile config (sampleEnv [] (Inr [Some sampleJSON]) (\<lambda>c. Inr [Some c]))
          sampleFile samplePR sampleWorld) = Inr noFix
   \<and> writes (snd (analyzeAndFixFile config (sampleEnv [] (Inr [Some sampleJSON]) (\<lambda>c. Inr [Some c]))
          sampleFile samplePR sampleWorld)) = []
   \<and> writes (snd (fixFileIssues
          (sampleEnv [] (Inr [Some sampleJSON]) (\<lambda>c. Inr [Some ''const a = 1;''])) ''app.js''
          [sampleIssue] samplePR sampleWorld)) \<noteq> writes sampleWorld
   \<and> (\<exists>content fixed.
         files sampleWorld ''app.js'' = Some content \<and>
         fst (generateFixes (sampleEnv [] (Inr [Some sampleJSON]) (\<lambda>c. Inr [Some ''const a = 1;'']))
                [sampleIssue] content (fixContext ''app.js'' samplePR) sampleWorld) = Inr (Some fixed) \<and>
         fixed \<noteq> content \<and>
         writes (snd (fixFileIssues
           (sampleEnv [] (Inr [Some sampleJSON]) (\<lambda>c. Inr [Some ''const a = 1;''])) ''app.js''
           [sampleIssue] samplePR sampleWorld)) = writes sampleWorld @ [(''app.js'', fixed)])
   \<and> writes (snd (analyzeAndFixFile config
          (sampleEnv [] (Inr [Some sampleJSON]) (\<lambda>c. Inr [Some ''const a = 1;'']))
          sampleFile samplePR sampleWorld)) \<noteq> writes sampleWorld
   \<and> (\<exists>content a fixed.
         files sampleWorld (changedFile.filename sampleFile) = Some content \<and>
         fst (analyzeCode (sampleEnv [] (Inr [Some sampleJSON]) (\<lambda>c. Inr [Some ''const a = 1;'']))
                content (fixContext (changedFile.filename sampleFile) samplePR) sampleWorld) = Inr a \<and>
         fst (generateFixes (sampleEnv [] (Inr [Some sampleJSON]) (\<lambda>c. Inr [Some ''const a = 1;'']))
                (filter isAutoFixable (issuesOf a)) content
                (fixContext (changedFile.filename sampleFile) samplePR) sampleWorld) = Inr (Some fixed) \<and>
         fixed \<noteq> content \<and>
         writes (snd (analyzeAndFixFile config
           (sampleEnv [] (Inr [Some sampleJSON]) (\<lambda>c. Inr [Some ''const a = 1;'']))
           sampleFile samplePR sampleWorld)) =
           writes sampleWorld @ [(changedFile.filename sampleFile, fixed)])"
proof -
  let ?e = "sampleEnv [] (Inr [Some sampleJSON]) (\<lambda>c. Inr [Some c])"
  let ?e2 = "sampleEnv [] (Inr [Some sampleJSON]) (\<lambda>c. Inr [Some ''const a = 1;''])"
  have h1: "files sampleWorld ''app.js'' = Some ''var a = 1''"
    by (simp add: sampleWorld_def)
  have h2: "fst (generateFixes ?e [sampleIssue] ''var a = 1'' (fixContext ''app.js'' samplePR)
              sampleWorld) = Inr (Some ''var a = 1'')"
    by (simp add: generateFixes_run sampleEnv_def parseFixes_plain)
  have h3: "fst (analyzeCode ?e ''var a = 1'' (fixContext ''app.js'' samplePR) sampleWorld) =
              Inr sampleAnalysis"
    by (simp add: analyzeCode_run sampleEnv_def sample_parse)
  have h4: "fst (generateFixes ?e (filter isAutoFixable (issuesOf sampleAnalysis)) ''var a = 1''
              (fixContext (changedFile.filename sampleFile) samplePR) sampleWorld) =
              Inr (Some ''var a = 1'')"
    by (simp add: generateFixes_run sampleEnv_def parseFixes_plain)
  have h5: "changedFile.filename sampleFile = ''app.js''"
    by (simp add: sampleFile_def)
  have w0: "writes sampleWorld = []"
    by (simp add: sampleWorld_def)
  have h6: "writes (snd (fixFileIssues ?e2 ''app.js'' [sampleIssue] samplePR sampleWorld)) \<noteq>
              writes sampleWorld"
    by (simp add: fix_defs sampleEnv_def sampleWorld_def parseFixes_plain2)
  have h7: "writes (snd (analyzeAndFixFile config ?e2 sampleFile samplePR sampleWorld)) \<noteq>
              writes sampleWorld"
    by (simp add: fix_defs sampleEnv_def sampleWorld_def sampleFile_def sample_supported
        sample_parse sample_issues sample_fixable parseFixes_plain2)
  from write_only_when_changed
    [where w = sampleWorld and fname = "''app.js''" and content = "''var a = 1''" and e = ?e
       and il = "[sampleIssue]" and pr = samplePR and r = "Some ''var a = 1''" and f = sampleFile
       and a = sampleAnalysis and cfg = config]
    h1 h2 h3 h4 h5 w0
  have first: "fst (fixFileIssues ?e ''app.js'' [sampleIssue] samplePR sampleWorld) = Inr noFix"
    "writes (snd (fixFileIssues ?e ''app.js'' [sampleIssue] samplePR sampleWorld)) = []"
    "fst (analyzeAndFixFile config ?e sampleFile samplePR sampleWorld) = Inr noFix"
    "writes (snd (analyzeAndFixFile config ?e sampleFile samplePR sampleWorld)) = []"
    by simp_all
  from write_only_when_changed
    [where w = sampleWorld and fname = "''app.js''" and e = ?e2
       and il = "[sampleIssue]" and pr = samplePR and f = sampleFile and cfg = config]
    h6 h7
  have second: "\<exists>content fixed.
         files sampleWorld ''app.js'' = Some content \<and>
         fst (generateFixes ?e2 [sampleIssue] content (fixContext ''app.js'' samplePR) sampleWorld) =
           Inr (Some fixed) \<and>
         fixed \<noteq> content \<and>
         writes (snd (fixFileIssues ?e2 ''app.js'' [sampleIssue] samplePR sampleWorld)) =
           writes sampleWorld @ [(''app.js'', fixed)]"
    "\<exists>content a fixed.
         files sampleWorld (changedFile.filename sampleFile) = Some content \<and>
         fst (analyzeCode ?e2 content (fixContext (changedFile.filename sampleFile) samplePR)
                sampleWorld) = Inr a \<and>
         fst (generateFixes ?e2 (filter isAutoFixable (issuesOf a)) content
                (fixContext (changedFile.filename sampleFile) samplePR) sampleWorld) = Inr (Some fixed) \<and>
         fixed \<noteq> content \<and>
         writes (snd (analyzeAndFixFile config ?e2 sampleFile samplePR sampleWorld)) =
           writes sampleWorld @ [(changedFile.filename sampleFile, fixed)]"
    by blast+
  from h1 h2 h3 first h6 h7 second show ?thesis
    by blast
qed

subsection \<open>Removed, empty and oversized files\<close>

text \<open>
  In the review, \<open>analyzeFile\<close> never raises, and a file that is removed, has more than
  1000 changed lines or has a blank patch is passed over: no review of it is returned
  and the world is untouched, so no request is sent for it.
\<close>

lemma analyzeFile_returns: "\<exists>r. fst (analyzeFile e f pr w) = Inr r"
  by (auto simp: analyzeFile_def try_catch_def return_def split: prod.splits sum.splits)

lemma analyzeFile_skips:
  "\<not> (status f = ''added'' \<or> status f = ''modified'') \<or>
   changedFile.additions f + changedFile.deletions f > 1000 \<or>
   trim (case patch f of None \<Rightarrow> [] | Some p \<Rightarrow> p) = [] \<Longrightarrow>
   analyzeFile e f pr w = (Inr None, w)"
  by (auto simp: analyzeFile_def analyzeFile_try_def try_catch_def return_def Let_def trim_def)

lemma analyzeFile_removed: "status f = ''removed'' \<Longrightarrow> analyzeFile e f pr w = (Inr None, w)"
  by (rule analyzeFile_skips) simp

lemma analyzeFile_requests:
  assumes "requests (snd (analyzeFile e f pr w)) \<noteq> requests w"
  shows "(status f = ''added'' \<or> status f = ''modified'') \<and>
   changedFile.additions f + changedFile.deletions f \<le> 1000 \<and>
   trim (case patch f of None \<Rightarrow> [] | Some p \<Rightarrow> p) \<noteq> []"
proof (rule ccontr)
  assume "\<not> ((status f = ''added'' \<or> status f = ''modified'') \<and>
   changedFile.additions f + changedFile.deletions f \<le> 1000 \<and>
   trim (case patch f of None \<Rightarrow> [] | Some p \<Rightarrow> p) \<noteq> [])"
  then have "\<not> (status f = ''added'' \<or> status f = ''modified'') \<or>
   changedFile.additions f + changedFile.deletions f > 1000 \<or>
   trim (case patch f of None \<Rightarrow> [] | Some p \<Rightarrow> p) = []"
    by auto
  then have "analyzeFile e f pr w = (Inr None, w)"
    by (rule analyzeFile_skips)
  with assms show False by simp
qed

text \<open>
  C7. The claim has a removed file never inspected and never fixed, in a fix run too.
  \<open>analyzeAndFixFile\<close> does not look at the status: when the working directory still
  has the file, it is analysed, a fix is requested and the file is written.
\<close>

theorem removed_file_fixed:
  "status \<lparr>changedFile.filename = ''app.js'', status = ''removed'', changedFile.additions = 0,
           changedFile.deletions = 1, patch = None\<rparr> = ''removed''
   \<and> analyzeAndFixFile config (sampleEnv [] (Inr [Some sampleJSON]) (\<lambda>c. Inr [Some ''const a = 1;'']))
       \<lparr>changedFile.filename = ''app.js'', status = ''removed'', changedFile.additions = 0,
        changedFile.deletions = 1, patch = None\<rparr> samplePR sampleWorld =
     (Inr \<lparr>success = True, fixesApplied = 1\<rparr>,
      \<lparr>files = [''app.js'' \<mapsto> ''const a = 1;''], comments = [], posted = [],
       requests = [AnalysisPrompt ''var a = 1'' (fixContext ''app.js'' samplePR),
                   FixPrompt [sampleIssue] ''var a = 1'' (fixContext ''app.js'' samplePR)],
       writes = [(''app.js'', ''const a = 1;'')]\<rparr>)"
  by (simp add: fix_defs sampleEnv_def sampleWorld_def sample_supported sample_parse sample_issues
      sample_fixable parseFixes_plain2)

subsection \<open>Exceptions of a review run\<close>

lemma healthCheck_run:
  "\<exists>b. healthCheck e w = (Inr b, w\<lparr>requests := requests w @ [HealthCheckPrompt]\<rparr>)"
  by (auto simp: healthCheck_def try_catch_def bind_def messages_create_def return_def throw_def
      split: sum.splits list.splits option.splits)

lemma createComment_caught:
  "try_catch (createComment e c) (\<lambda>err. return ()) w =
     (Inr (), if octokit_issues_createComment e c = None then w\<lparr>comments := comments w @ [c]\<rparr> else w)"
  by (auto simp: try_catch_def createComment_def return_def split: option.splits)

lemma postSummaryComment_returns: "fst (postSummaryComment e m w) = Inr ()"
  by (simp add: postSummaryComment_def createComment_caught)

text \<open>\<open>analyzeFile\<close> sends at most a request: it posts nothing.\<close>

lemma analyzeFile_quiet:
  "comments (snd (analyzeFile e f pr w)) = comments w \<and>
   posted (snd (analyzeFile e f pr w)) = posted w"
  by (auto simp: analyzeFile_def analyzeFile_try_def try_catch_def bind_def return_def Let_def
      analyzeCode_run split: sum.splits)

lemma analyzeFiles_quiet:
  "\<exists>rs w'. analyzeFiles e pr fs acc w = (Inr rs, w') \<and> comments w' = comments w \<and>
     posted w' = posted w"
proof (induction fs arbitrary: acc w)
  case Nil
  then show ?case by simp
next
  case (Cons f fs)
  obtain r w1 where r: "analyzeFile e f pr w = (Inr r, w1)"
    using analyzeFile_returns[of e f pr w] by (cases "analyzeFile e f pr w") auto
  with analyzeFile_quiet[of e f pr w]
  have q: "comments w1 = comments w" "posted w1 = posted w"
    by simp_all
  show ?case
  proof (cases r)
    case None
    with r q Cons.IH[of acc w1] show ?thesis by simp
  next
    case (Some a)
    with r q Cons.IH[of "acc @ [a]" w1] show ?thesis by simp
  qed
qed

text \<open>\<open>generateSummary\<close> posts a review or nothing: the comments are as before.\<close>

lemma generateSummary_quiet:
  "fst (generateSummary e reviews pr w) = Inr () \<and>
   comments (snd (generateSummary e reviews pr w)) = comments w"
  by (auto simp: generateSummary_def generateSummary_try_def try_catch_def bind_def lift_def
      createReview_def return_def Let_def split: sum.splits option.splits)

text \<open>
  \<open>postFileComments\<close> posts issue comments only, and it raises only at a result without
  issues.
\<close>

lemma postIssueComments_run:
  "\<exists>cs. list_all isIssueComment cs \<and>
     postIssueComments e fname il w = (Inr (), w\<lparr>comments := comments w @ cs\<rparr>)"
proof (induction il arbitrary: w)
  case Nil
  have "list_all isIssueComment [] \<and>
     postIssueComments e fname [] w = (Inr (), w\<lparr>comments := comments w @ []\<rparr>)"
    by simp
  then show ?case by blast
next
  case (Cons i il)
  let ?c = "IssueComment i fname"
  show ?case
  proof (cases "octokit_issues_createComment e ?c = None")
    case True
    let ?w1 = "w\<lparr>comments := comments w @ [?c]\<rparr>"
    obtain cs where cs: "list_all isIssueComment cs"
      "postIssueComments e fname il ?w1 = (Inr (), ?w1\<lparr>comments := comments ?w1 @ cs\<rparr>)"
      using Cons.IH[of ?w1] by blast
    have "list_all isIssueComment (?c # cs) \<and>
       postIssueComments e fname (i # il) w = (Inr (), w\<lparr>comments := comments w @ (?c # cs)\<rparr>)"
      using cs by (simp add: createComment_caught True)
    then show ?thesis by blast
  next
    case False
    obtain cs where cs: "list_all isIssueComment cs"
      "postIssueComments e fname il w = (Inr (), w\<lparr>comments := comments w @ cs\<rparr>)"
      using Cons.IH[of w] by blast
    have "list_all isIssueComment cs \<and>
       postIssueComments e fname (i # il) w = (Inr (), w\<lparr>comments := comments w @ cs\<rparr>)"
      using cs by (simp add: createComment_caught False)
    then show ?thesis by blast
  qed
qed

lemma postFileComments_run:
  "\<exists>cs res. list_all isIssueComment cs \<and>
     postFileComments e rs w = (res, w\<lparr>comments := comments w @ cs\<rparr>) \<and>
     (res = Inr () \<or> (res = Inl ''TypeError'' \<and> \<not> list_all (\<lambda>r. issues (analysis r) \<noteq> None) rs))"
proof (induction rs arbitrary: w)
  case Nil
  have "list_all isIssueComment [] \<and>
     postFileComments e [] w = (Inr (), w\<lparr>comments := comments w @ []\<rparr>)"
    by simp
  then show ?case by blast
next
  case (Cons r rs)
  show ?case
  proof (cases "issues (analysis r)")
    case None
    have "list_all isIssueComment [] \<and>
       postFileComments e (r # rs) w = (Inl ''TypeError'', w\<lparr>comments := comments w @ []\<rparr>) \<and>
       \<not> list_all (\<lambda>r. issues (analysis r) \<noteq> None) (r # rs)"
      using None by simp
    then show ?thesis by blast
  next
    case (Some found)
    obtain cs where cs: "list_all isIssueComment cs"
      "postIssueComments e (changedFile.filename (file' r)) found w =
         (Inr (), w\<lparr>comments := comments w @ cs\<rparr>)"
      using postIssueComments_run[of e "changedFile.filename (file' r)" found w] by blast
    let ?w1 = "w\<lparr>comments := comments w @ cs\<rparr>"
    obtain cs' res where rest: "list_all isIssueComment cs'"
      "postFileComments e rs ?w1 = (res, ?w1\<lparr>comments := comments ?w1 @ cs'\<rparr>)"
      "res = Inr () \<or> (res = Inl ''TypeError'' \<and> \<not> list_all (\<lambda>r. issues (analysis r) \<noteq> None) rs)"
      using Cons.IH[of ?w1] by blast
    have "list_all isIssueComment (cs @ cs') \<and>
       postFileComments e (r # rs) w = (res, w\<lparr>comments := comments w @ (cs @ cs')\<rparr>) \<and>
       (res = Inr () \<or>
        (res = Inl ''TypeError'' \<and> \<not> list_all (\<lambda>r. issues (analysis r) \<noteq> None) (r # rs)))"
      using Some cs rest by auto
    then show ?thesis by blast
  qed
qed

text \<open>
  When the body of \<open>reviewPullRequest\<close> raises, no review has been posted and the
  comments posted so far are issue comments.
\<close>

lemma reviewPullRequest_try_raises:
  assumes "reviewPullRequest_try cfg e w = (Inl err, w1)"
  shows "posted w1 = posted w \<and> (\<exists>cs. list_all isIssueComment cs \<and> comments w1 = comments w @ cs)"
proof -
  obtain b where h: "healthCheck e w = (Inr b, w\<lparr>requests := requests w @ [HealthCheckPrompt]\<rparr>)"
    using healthCheck_run by blast
  let ?w = "w\<lparr>requests := requests w @ [HealthCheckPrompt]\<rparr>"
  have early: "posted ?w = posted w \<and> (\<exists>cs. list_all isIssueComment cs \<and> comments ?w = comments w @ cs)"
  proof -
    have "list_all isIssueComment [] \<and> comments ?w = comments w @ []"
      by simp
    then show ?thesis by auto
  qed
  show ?thesis
  proof (cases "b")
    case False
    with assms h have "w1 = ?w"
      by (simp add: reviewPullRequest_try_def bind_def throw_def)
    with early show ?thesis by simp
  next
    case True
    show ?thesis
    proof (cases "octokit_pulls_get e")
      case (Inl a)
      with assms h True have "w1 = ?w"
        by (simp add: reviewPullRequest_try_def bind_def getPullRequest_def lift_def)
      with early show ?thesis by simp
    next
      case pr: (Inr pr)
      show ?thesis
      proof (cases "octokit_pulls_listFiles e")
        case (Inl a)
        with assms h True pr have "w1 = ?w"
          by (simp add: reviewPullRequest_try_def bind_def getPullRequest_def getPullRequestFiles_def lift_def)
        with early show ?thesis by simp
      next
        case fs: (Inr changed)
        show ?thesis
        proof (cases "filterFiles (RegExp_test e) (excludePatterns cfg) changed")
          case (Inl a)
          with assms h True pr fs have "w1 = ?w"
            by (simp add: reviewPullRequest_try_def bind_def getPullRequest_def
                getPullRequestFiles_def lift_def)
          with early show ?thesis by simp
        next
          case ff: (Inr filteredFiles)
          have rest: "reviewPullRequest_try cfg e w =
            (if length filteredFiles = 0 then
               postSummaryComment e ''No reviewable files found in this PR.''
             else
               bind (analyzeFiles e pr (take (maxFilesPerReview cfg) filteredFiles) []) (\<lambda>reviews.
               bind (generateSummary e reviews pr) (\<lambda>u.
               postFileComments e reviews))) ?w"
            using h True pr fs ff
            by (simp add: reviewPullRequest_try_def bind_def getPullRequest_def
                getPullRequestFiles_def lift_def Let_def)
          show ?thesis
          proof (cases "length filteredFiles = 0")
            case True
            with assms postSummaryComment_returns[of e "''No reviewable files found in this PR.''" ?w]
            show ?thesis
              unfolding rest by simp
          next
            case False
            obtain rs w2 where a: "analyzeFiles e pr (take (maxFilesPerReview cfg) filteredFiles) [] ?w = (Inr rs, w2)"
              and w2: "comments w2 = comments ?w" "posted w2 = posted ?w"
              using analyzeFiles_quiet[of e pr "take (maxFilesPerReview cfg) filteredFiles" "[]" ?w]
              by blast
            obtain w3 where g: "generateSummary e rs pr w2 = (Inr (), w3)"
              using generateSummary_quiet[of e rs pr w2]
              by (cases "generateSummary e rs pr w2") auto
            obtain cs res where p: "list_all isIssueComment cs"
              "postFileComments e rs w3 = (res, w3\<lparr>comments := comments w3 @ cs\<rparr>)"
              "res = Inr () \<or> (res = Inl ''TypeError'' \<and> \<not> list_all (\<lambda>r. issues (analysis r) \<noteq> None) rs)"
              using postFileComments_run[of e rs w3] by blast
            have run: "reviewPullRequest_try cfg e w = (res, w3\<lparr>comments := comments w3 @ cs\<rparr>)"
              using False a g p(2) unfolding rest by (simp add: bind_def)
            with assms have res: "res = Inl err" and w1: "w1 = w3\<lparr>comments := comments w3 @ cs\<rparr>"
              by simp_all
            from res p(3) have "\<not> list_all (\<lambda>r. issues (analysis r) \<noteq> None) rs"
              by auto
            then have "generateSummary e rs pr w2 = (Inr (), w2)"
              by (rule generateSummary_malformed)
            with g have "w3 = w2"
              by simp
            with w1 w2 have "posted w1 = posted w \<and> comments w1 = comments w @ cs"
              by simp
            with p(1) show ?thesis by blast
          qed
        qed
      qed
    qed
  qed
qed

lemma errorComment_includes: "str_includes (ReviewBot_errorComment err) err"
proof -
  have "ReviewBot_errorComment err =
      (''## :x: ReviewBot Error'' @ nl @ nl @ ''An error occurred during the analysis:'' @ nl @ nl @
       ''```'' @ nl) @ err @ (nl @ ''```'' @ nl @ nl @ ''Please check the action logs for more details.'')"
    by (simp add: ReviewBot_errorComment_def)
  then show ?thesis
    unfolding includes_sublist sublist_def by blast
qed

lemma postErrorComment_run:
  "ReviewBot_postErrorComment e err w =
     (Inr (),
      if octokit_issues_createComment e (Text (ReviewBot_errorComment err)) = None
      then w\<lparr>comments := comments w @ [Text (ReviewBot_errorComment err)]\<rparr> else w)"
  by (simp add: ReviewBot_postErrorComment_def createComment_caught)

lemma reviewPullRequest_returns: "fst (reviewPullRequest cfg e w) = Inr ()"
  by (cases "reviewPullRequest_try cfg e w")
     (auto simp: reviewPullRequest_def try_catch_def postErrorComment_run split: sum.splits)

lemma runReviewBot_returns:
  "newBot penv = Inr () \<Longrightarrow> runReviewBot cfg penv e w = reviewPullRequest cfg e w"
  using reviewPullRequest_returns[of cfg e w]
  by (cases "reviewPullRequest cfg e w")
     (auto simp: runReviewBot_def try_catch_def bind_def lift_def throw_def split: sum.splits)

text \<open>
  C8, as the program has it. \<open>reviewPullRequest\<close> never raises, so \<open>runReviewBot\<close> does
  not either once the bot is constructed, and the command ends with status 0. An
  exception that leaves the body of \<open>reviewPullRequest\<close> is answered by one attempt to
  post the error comment, whose text contains the message. No review has been posted
  then, and the comments of the run are the issue comments \<open>cs\<close> that the body posted
  before it raised (\<open>postFileComments\<close> raises at a result without issues, after the
  comments for the results before it), followed by the error comment when the platform
  accepts it. \<open>analyzeFile\<close> and \<open>generateSummary\<close> catch their own exceptions: they never
  raise and they post no comment, so what is raised inside them reaches neither that
  handler nor the pull request.
\<close>

theorem review_exceptions_caught:
  "fst (reviewPullRequest cfg e w) = Inr ()
   \<and> (newBot penv = Inr () \<longrightarrow>
        fst (runReviewBot cfg penv e w) = Inr () \<and> fst (runCommand_review cfg penv e w) = 0)
   \<and> (fst (reviewPullRequest_try cfg e w) = Inl err \<longrightarrow>
        str_includes (ReviewBot_errorComment err) err \<and>
        posted (snd (reviewPullRequest cfg e w)) = posted w \<and>
        (\<exists>cs. list_all isIssueComment cs \<and>
           comments (snd (reviewPullRequest cfg e w)) =
             comments w @ cs @
             (if octokit_issues_createComment e (Text (ReviewBot_errorComment err)) = None
              then [Text (ReviewBot_errorComment err)] else [])))
   \<and> (\<exists>r. fst (analyzeFile e f pr w) = Inr r)
   \<and> comments (snd (analyzeFile e f pr w)) = comments w
   \<and> posted (snd (analyzeFile e f pr w)) = posted w
   \<and> fst (generateSummary e reviews pr w) = Inr ()
   \<and> comments (snd (generateSummary e reviews pr w)) = comments w"
proof -
  have a: "fst (reviewPullRequest cfg e w) = Inr ()"
    by (rule reviewPullRequest_returns)
  have b: "fst (runReviewBot cfg penv e w) = Inr () \<and> fst (runCommand_review cfg penv e w) = 0"
    if "newBot penv = Inr ()"
    using runReviewBot_returns[OF that, of cfg e w] a
    by (cases "reviewPullRequest cfg e w") (auto simp: runCommand_review_def)
  have c: "str_includes (ReviewBot_errorComment err) err \<and>
        posted (snd (reviewPullRequest cfg e w)) = posted w \<and>
        (\<exists>cs. list_all isIssueComment cs \<and>
           comments (snd (reviewPullRequest cfg e w)) =
             comments w @ cs @
             (if octokit_issues_createComment e (Text (ReviewBot_errorComment err)) = None
              then [Text (ReviewBot_errorComment err)] else []))"
    if "fst (reviewPullRequest_try cfg e w) = Inl err"
  proof -
    define w1 where "w1 = snd (reviewPullRequest_try cfg e w)"
    have t: "reviewPullRequest_try cfg e w = (Inl err, w1)"
      using that by (simp add: w1_def prod_eq_iff)
    from reviewPullRequest_try_raises[OF t]
    obtain cs where w1: "posted w1 = posted w" "list_all isIssueComment cs"
      "comments w1 = comments w @ cs"
      by blast
    have "reviewPullRequest cfg e w = ReviewBot_postErrorComment e err w1"
      using t by (simp add: reviewPullRequest_def try_catch_def)
    then have "posted (snd (reviewPullRequest cfg e w)) = posted w \<and>
        comments (snd (reviewPullRequest cfg e w)) =
             comments w @ cs @
             (if octokit_issues_createComment e (Text (ReviewBot_errorComment err)) = None
              then [Text (ReviewBot_errorComment err)] else [])"
      by (simp add: postErrorComment_run w1)
    with w1(2) errorComment_includes[of err] show ?thesis
      by blast
  qed
  from a b c analyzeFile_returns[of e f pr w] analyzeFile_quiet[of e f pr w]
    generateSummary_quiet[of e reviews pr w]
  show ?thesis by blast
qed


lemma sample_health:
  "healthCheck (sampleEnv changed a f) w = (Inr True, w\<lparr>requests := requests w @ [HealthCheckPrompt]\<rparr>)"
  by (simp add: healthCheck_def try_catch_def bind_def messages_create_def return_def sampleEnv_def)

lemma sample_health_update:
  "healthCheck ((sampleEnv changed a f)\<lparr>octokit_pulls_get := g\<rparr>) w =
     (Inr True, w\<lparr>requests := requests w @ [HealthCheckPrompt]\<rparr>)"
  by (simp add: healthCheck_def try_catch_def bind_def messages_create_def return_def sampleEnv_def)

lemma sample_newBot: "newBot sampleProcessEnv = Inr ()"
  by (simp add: newBot_def sampleProcessEnv_def falsy_def)

lemma notFound_run:
  "reviewPullRequest config
     ((sampleEnv [] (Inr [Some sampleJSON]) (\<lambda>c. Inr [Some c]))\<lparr>octokit_pulls_get := Inl ''Not Found''\<rparr>)
     sampleWorld =
   (Inr (), sampleWorld\<lparr>requests := [HealthCheckPrompt],
              comments := [Text (ReviewBot_errorComment ''Not Found'')]\<rparr>)"
proof -
  let ?e = "(sampleEnv [] (Inr [Some sampleJSON]) (\<lambda>c. Inr [Some c]))\<lparr>octokit_pulls_get := Inl ''Not Found''\<rparr>"
  have e: "octokit_issues_createComment ?e = (\<lambda>c. None)" "octokit_pulls_get ?e = Inl ''Not Found''"
    by (simp_all add: sampleEnv_def)
  show ?thesis
    by (simp add: reviewPullRequest_def reviewPullRequest_try_def try_catch_def bind_def
        sample_health_update getPullRequest_def lift_def postErrorComment_run e sampleWorld_def)
qed

lemma partial_health:
  "healthCheck partialEnv w = (Inr True, w\<lparr>requests := requests w @ [HealthCheckPrompt]\<rparr>)"
  by (simp add: healthCheck_def try_catch_def bind_def messages_create_def return_def partialEnv_def
      sampleEnv_def answerPerFile_def)

lemma partial_match: "jsonMatch partialJSON = Some partialJSON"
  by (simp add: jsonMatch_def partialJSON_def)

lemma partial_parse: "parseResponse sampleParse [Some partialJSON] = Inr partialAnalysis"
proof -
  have "partialJSON \<noteq> sampleJSON"
    by (simp add: partialJSON_def sampleJSON_def)
  then show ?thesis
    by (simp add: parseResponse_def parseResponse_try_def partial_match sampleParse_def)
qed

lemma partial_some:
  "some fragmentEngine (excludePatterns config) ''app.js'' = Inr False"
  "some fragmentEngine (excludePatterns config) ''lib.js'' = Inr False"
  by (simp_all add: config_def regexSource_def replaceStar_def fragmentEngine_def
      RegExp_fragment_def metaChars_def lineTerminator_def)

text \<open>
  The run on the two files: the first analysis has one issue, the second has no
  \<open>issues\<close>. \<open>generateSummary\<close> catches its TypeError and posts no review,
  \<open>postFileComments\<close> posts the comment for the issue of \<open>app.js\<close> and raises at the second
  result, and the handler posts the error comment.
\<close>

lemma partial_try:
  "fst (reviewPullRequest_try config partialEnv sampleWorld) = Inl ''TypeError'' \<and>
   comments (snd (reviewPullRequest_try config partialEnv sampleWorld)) =
     [IssueComment sampleIssue ''app.js'']"
proof -
  have e: "octokit_pulls_get partialEnv = Inr samplePR"
    "octokit_pulls_listFiles partialEnv = Inr [sampleFile, otherFile]"
    "RegExp_test partialEnv = fragmentEngine"
    "octokit_issues_createComment partialEnv = (\<lambda>c. None)"
    "JSON_parse partialEnv = sampleParse"
    "anthropic_messages_create partialEnv = answerPerFile"
    by (simp_all add: partialEnv_def sampleEnv_def)
  have ff: "filterFiles fragmentEngine (excludePatterns config) [sampleFile, otherFile] =
      Inr [sampleFile, otherFile]"
    by (simp add: partial_some sampleFile_def otherFile_def)
  have tk: "take (maxFilesPerReview config) [sampleFile, otherFile] = [sampleFile, otherFile]"
    by (simp add: config_def)
  have a1: "analyzeFile partialEnv sampleFile samplePR w =
      (Inr (Some \<lparr>file' = sampleFile, analysis = sampleAnalysis,
                    context' = ctx1\<rparr>), w\<lparr>requests := requests w @ [AnalysisPrompt ''+var a = 1'' ctx1]\<rparr>)"
    if "ctx1 = \<lparr>analysisContext.filename = ''app.js'', language = detectLanguage ''app.js'',
               pullRequestContext = ''PR #'' @ digits 7 @ '': '' @ ''Add parser'' @ nl,
               fileStatus = Some ''modified'', analysisContext.additions = Some 1,
               analysisContext.deletions = Some 1\<rparr>" for w ctx1
    using that
    by (simp add: analyzeFile_def analyzeFile_try_def try_catch_def bind_def return_def Let_def
        sampleFile_def samplePR_def trim_def whiteSpace_def analyzeCode_run e answerPerFile_def
        sample_parse)
  have a2: "analyzeFile partialEnv otherFile samplePR w =
      (Inr (Some \<lparr>file' = otherFile, analysis = partialAnalysis,
                    context' = ctx2\<rparr>), w\<lparr>requests := requests w @ [AnalysisPrompt ''+let b'' ctx2]\<rparr>)"
    if "ctx2 = \<lparr>analysisContext.filename = ''lib.js'', language = detectLanguage ''lib.js'',
               pullRequestContext = ''PR #'' @ digits 7 @ '': '' @ ''Add parser'' @ nl,
               fileStatus = Some ''added'', analysisContext.additions = Some 1,
               analysisContext.deletions = Some 0\<rparr>" for w ctx2
    using that
    by (simp add: analyzeFile_def analyzeFile_try_def try_catch_def bind_def return_def Let_def
        otherFile_def samplePR_def trim_def whiteSpace_def analyzeCode_run e answerPerFile_def
        partial_parse)
  have i: "issues sampleAnalysis = Some [sampleIssue]" "issues partialAnalysis = None"
    by (simp_all add: sampleAnalysis_def partialAnalysis_def)
  have n: "changedFile.filename sampleFile = ''app.js''"
    by (simp add: sampleFile_def)
  show ?thesis
    by (simp add: reviewPullRequest_try_def bind_def partial_health getPullRequest_def
        getPullRequestFiles_def lift_def e ff tk a1 a2 i n generateSummary_malformed
        createComment_caught sampleWorld_def del: filterFiles.simps)
qed

theorem review_exceptions_caught_witness:
  "newBot sampleProcessEnv = Inr ()
   \<and> fst (reviewPullRequest_try config
        ((sampleEnv [] (Inr [Some sampleJSON]) (\<lambda>c. Inr [Some c]))\<lparr>octokit_pulls_get := Inl ''Not Found''\<rparr>)
        sampleWorld) = Inl ''Not Found''
   \<and> fst (runCommand_review config sampleProcessEnv
        ((sampleEnv [] (Inr [Some sampleJSON]) (\<lambda>c. Inr [Some c]))\<lparr>octokit_pulls_get := Inl ''Not Found''\<rparr>)
        sampleWorld) = 0
   \<and> comments (snd (reviewPullRequest config
        ((sampleEnv [] (Inr [Some sampleJSON]) (\<lambda>c. Inr [Some c]))\<lparr>octokit_pulls_get := Inl ''Not Found''\<rparr>)
        sampleWorld)) = [Text (ReviewBot_errorComment ''Not Found'')]
   \<and> posted (snd (reviewPullRequest config
        ((sampleEnv [] (Inr [Some sampleJSON]) (\<lambda>c. Inr [Some c]))\<lparr>octokit_pulls_get := Inl ''Not Found''\<rparr>)
        sampleWorld)) = []
   \<and> fst (reviewPullRequest_try config partialEnv sampleWorld) = Inl ''TypeError''
   \<and> fst (runCommand_review config sampleProcessEnv partialEnv sampleWorld) = 0
   \<and> comments (snd (reviewPullRequest config partialEnv sampleWorld)) =
        [IssueComment sampleIssue ''app.js'', Text (ReviewBot_errorComment ''TypeError'')]
   \<and> posted (snd (reviewPullRequest config partialEnv sampleWorld)) = []"
proof -
  let ?e = "(sampleEnv [] (Inr [Some sampleJSON]) (\<lambda>c. Inr [Some c]))\<lparr>octokit_pulls_get := Inl ''Not Found''\<rparr>"
  have h1: "newBot sampleProcessEnv = Inr ()"
    by (rule sample_newBot)
  have h2: "fst (reviewPullRequest_try config ?e sampleWorld) = Inl ''Not Found''"
    by (simp add: reviewPullRequest_try_def bind_def sample_health_update getPullRequest_def lift_def)
  have h3: "octokit_issues_createComment ?e (Text (ReviewBot_errorComment ''Not Found'')) = None"
    "octokit_issues_createComment partialEnv (Text (ReviewBot_errorComment ''TypeError'')) = None"
    by (simp_all add: sampleEnv_def partialEnv_def)
  have h4: "comments sampleWorld = []" "posted sampleWorld = []"
    by (simp_all add: sampleWorld_def)
  have h5: "comments (snd (reviewPullRequest config ?e sampleWorld)) =
      [Text (ReviewBot_errorComment ''Not Found'')]"
    by (simp add: notFound_run)
  have h6: "fst (reviewPullRequest_try config partialEnv sampleWorld) = Inl ''TypeError''"
    using partial_try by simp
  have h7: "comments (snd (reviewPullRequest config partialEnv sampleWorld)) =
      [IssueComment sampleIssue ''app.js'', Text (ReviewBot_errorComment ''TypeError'')]"
  proof -
    obtain w1 where t: "reviewPullRequest_try config partialEnv sampleWorld = (Inl ''TypeError'', w1)"
      and c: "comments w1 = [IssueComment sampleIssue ''app.js'']"
      using partial_try by (cases "reviewPullRequest_try config partialEnv sampleWorld") auto
    show ?thesis
      using t c h3(2) by (simp add: reviewPullRequest_def try_catch_def postErrorComment_run)
  qed
  from review_exceptions_caught
    [where cfg = config and e = ?e and w = sampleWorld and penv = sampleProcessEnv
       and err = "''Not Found''"]
    h1 h2 h4
  have first: "fst (runCommand_review config sampleProcessEnv ?e sampleWorld) = 0"
    "posted (snd (reviewPullRequest config ?e sampleWorld)) = []"
    by simp_all
  from review_exceptions_caught
    [where cfg = config and e = partialEnv and w = sampleWorld and penv = sampleProcessEnv
       and err = "''TypeError''"]
    h1 h6 h4
  have second: "fst (runCommand_review config sampleProcessEnv partialEnv sampleWorld) = 0"
    "posted (snd (reviewPullRequest config partialEnv sampleWorld)) = []"
    by simp_all
  from h1 h2 h5 h6 h7 first second show ?thesis
    by simp
qed

lemma sample_some:
  "some fragmentEngine (excludePatterns config) (changedFile.filename sampleFile) = Inr False"
  by (simp add: config_def sampleFile_def regexSource_def replaceStar_def fragmentEngine_def
      RegExp_fragment_def metaChars_def lineTerminator_def)

lemma sample_analyzeFile_try:
  "fst (analyzeFile_try (sampleEnv [sampleFile] (Inl ''Overloaded'') (\<lambda>c. Inr [Some c]))
          sampleFile samplePR w) = Inl ''Overloaded''"
  by (simp add: analyzeFile_try_def sampleFile_def Let_def trim_def whiteSpace_def bind_def
      analyzeCode_def messages_create_def sampleEnv_def)

lemma sample_analyzeFile:
  "fst (analyzeFile (sampleEnv [sampleFile] (Inl ''Overloaded'') (\<lambda>c. Inr [Some c]))
          sampleFile samplePR w) = Inr None \<and>
   comments (snd (analyzeFile (sampleEnv [sampleFile] (Inl ''Overloaded'') (\<lambda>c. Inr [Some c]))
          sampleFile samplePR w)) = comments w \<and>
   posted (snd (analyzeFile (sampleEnv [sampleFile] (Inl ''Overloaded'') (\<lambda>c. Inr [Some c]))
          sampleFile samplePR w)) = posted w"
  by (simp add: analyzeFile_def try_catch_def analyzeFile_try_def sampleFile_def Let_def trim_def
      whiteSpace_def bind_def analyzeCode_def messages_create_def sampleEnv_def return_def)

text \<open>
  C8 as claimed does not hold: when the reasoning service raises during the analysis of
  a file, \<open>analyzeFile\<close> catches the exception; the run posts no error comment (it posts
  a review with verdict \<open>COMMENT\<close>) and the command ends with status 0.
\<close>

theorem review_exception_unreported:
  "fst (analyzeFile_try (sampleEnv [sampleFile] (Inl ''Overloaded'') (\<lambda>c. Inr [Some c]))
          sampleFile samplePR sampleWorld) = Inl ''Overloaded''
   \<and> comments (snd (reviewPullRequest config
          (sampleEnv [sampleFile] (Inl ''Overloaded'') (\<lambda>c. Inr [Some c])) sampleWorld)) = []
   \<and> map snd (posted (snd (reviewPullRequest config
          (sampleEnv [sampleFile] (Inl ''Overloaded'') (\<lambda>c. Inr [Some c])) sampleWorld))) = [''COMMENT'']
   \<and> fst (runCommand_review config sampleProcessEnv
          (sampleEnv [sampleFile] (Inl ''Overloaded'') (\<lambda>c. Inr [Some c])) sampleWorld) = 0"
proof -
  let ?e = "sampleEnv [sampleFile] (Inl ''Overloaded'') (\<lambda>c. Inr [Some c])"
  let ?w1 = "sampleWorld\<lparr>requests := requests sampleWorld @ [HealthCheckPrompt]\<rparr>"
  obtain w2 where a: "analyzeFile ?e sampleFile samplePR ?w1 = (Inr None, w2)"
    and w2: "comments w2 = []" "posted w2 = []"
    using sample_analyzeFile[of ?w1]
    by (cases "analyzeFile ?e sampleFile samplePR ?w1") (auto simp: sampleWorld_def)
  have e: "octokit_pulls_get ?e = Inr samplePR" "octokit_pulls_listFiles ?e = Inr [sampleFile]"
    "RegExp_test ?e = fragmentEngine" "octokit_pulls_createReview ?e = (\<lambda>b v. None)"
    by (simp_all add: sampleEnv_def)
  have tk: "take (maxFilesPerReview config) [sampleFile] = [sampleFile]"
    by (simp add: config_def)
  have run: "reviewPullRequest config ?e sampleWorld =
      (Inr (), w2\<lparr>posted := [(\<lparr>arg_reviews = [], arg_pullRequest = samplePR,
          arg_overallAssessment = '':white_check_mark: **APPROVED** - Code looks good!'',
          arg_emoji = '':white_check_mark:'', arg_totalIssues = 0, arg_highSeverityIssues = 0\<rparr>,
          ''COMMENT'')]\<rparr>)"
    using a w2
    by (simp add: reviewPullRequest_def reviewPullRequest_try_def try_catch_def bind_def
        sample_health getPullRequest_def getPullRequestFiles_def lift_def e sample_some
        generateSummary_def generateSummary_try_def createReview_def return_def
        totalIssues_def highSeverityIssues_def overallAssessment_def Let_def tk)
  have exit: "fst (runCommand_review config sampleProcessEnv ?e sampleWorld) = 0"
    using runReviewBot_returns[OF sample_newBot, of config ?e sampleWorld] run
    by (simp add: runCommand_review_def)
  from run exit w2 sample_analyzeFile_try[of sampleWorld] show ?thesis
    by simp
qed

subsection \<open>Targeted fixes\<close>

lemma fixFileIssues_returns: "\<exists>r. fst (fixFileIssues e fname il pr w) = Inr r"
  by (auto simp: fixFileIssues_def try_catch_def return_def split: prod.splits sum.splits)

lemma group_mock:
  "groupIssuesByFile extractIssuesFromComments = Inr [(''example.js'', extractIssuesFromComments)]"
  by (simp add: groupIssuesByFile_def extractIssuesFromComments_def groupStep_def propertyKey_def Let_def
      objectPrototypeKeys_def)

lemma entries_mock: "objectEntries [(''example.js'', v)] = [(''example.js'', v)]"
  by (simp add: objectEntries_def arrayIndex_def isDigit_def)

lemma postFixComment_run:
  "postFixComment e m w =
     (Inr (),
      if octokit_issues_createComment e (Text (fixComment m)) = None
      then w\<lparr>comments := comments w @ [Text (fixComment m)]\<rparr> else w)"
  by (simp add: postFixComment_def createComment_caught)

lemma postFixSummary_run:
  "postFixSummary e a b c w =
     (Inr (),
      if octokit_issues_createComment e (Text (fixSummaryComment a b c)) = None
      then w\<lparr>comments := comments w @ [Text (fixSummaryComment a b c)]\<rparr> else w)"
  by (simp add: postFixSummary_def createComment_caught)

text \<open>
  C9, as the program has it. In a targeted request the issues to fix are the fixed list
  of \<open>extractIssuesFromComments\<close>, one issue of \<open>example.js\<close>, whatever the world holds: the
  run always goes on to \<open>fixFileIssues\<close> for \<open>example.js\<close> and posts the summary of fixes.
  On an empty list \<open>applySpecificFixes\<close> would post the comment that no issue was found
  and stop, with no request for a fix and no file written; the list is never empty.
\<close>

theorem targeted_fix_uses_fixed_list:
  "extractIssuesFromComments =
     [\<lparr>issue.type = ''style'', severity = ''low'', line = Some 10,
       description = ''Missing semicolon'', suggestion = ''Add semicolon at end of statement'',
       issue.filename = Some ''example.js''\<rparr>]
   \<and> (\<exists>r w1.
        fixFileIssues e ''example.js'' extractIssuesFromComments pr w = (Inr r, w1) \<and>
        applySpecificFixes e fixReq pr w =
          postFixSummary e (if success r then 1 else 0) (if success r then fixesApplied r else 0) 1 w1)
   \<and> applySpecificFixes_on [] e fixReq pr w =
        (Inr (),
         if octokit_issues_createComment e
              (Text (fixComment
                 ''No specific issues found to fix. Please ensure ReviewBot has analyzed the PR first.'')) = None
         then w\<lparr>comments := comments w @
                [Text (fixComment
                   ''No specific issues found to fix. Please ensure ReviewBot has analyzed the PR first.'')]\<rparr>
         else w)"
proof -
  obtain r w1 where f: "fixFileIssues e ''example.js'' extractIssuesFromComments pr w = (Inr r, w1)"
    using fixFileIssues_returns[of e "''example.js''" extractIssuesFromComments pr w]
    by (cases "fixFileIssues e ''example.js'' extractIssuesFromComments pr w") auto
  have ne: "length extractIssuesFromComments \<noteq> 0"
    by (simp add: extractIssuesFromComments_def)
  have "applySpecificFixes e fixReq pr w =
          postFixSummary e (if success r then 1 else 0) (if success r then fixesApplied r else 0) 1 w1"
    using f ne
    by (simp add: applySpecificFixes_def applySpecificFixes_on_def bind_def lift_def group_mock
        entries_mock)
  with f show ?thesis
    by (simp add: extractIssuesFromComments_def applySpecificFixes_on_def postFixComment_run)
qed

lemma parse_apply:
  "parseFixRequest ''@fixbot apply'' =
     \<lparr>shouldFix = True, fixRequest.type = Some ''specific'', scope = Some ''targeted''\<rparr>"
  by (simp add: parseFixRequest_def toLowerCase_def toLowerCase_char_def)

text \<open>
  C9 as claimed does not hold: in a run for the comment \<open>@fixbot apply\<close>, on a pull request
  with no comment and no review, so with no analysis result to take issues from, the
  program asks for a fix of \<open>example.js\<close>, writes the file and posts the summary of
  fixes, not the comment that no issue was found.
\<close>

theorem targeted_fix_without_analysis:
  "comments sampleWorld = [] \<and> posted sampleWorld = []
   \<and> fixRequest.type (parseFixRequest ''@fixbot apply'') = Some ''specific''
   \<and> requests (snd (processFixRequest config ''@fixbot apply''
          (sampleEnv [] (Inr [Some sampleJSON]) (\<lambda>c. Inr [Some ''let x = 1;'']))
          (sampleWorld\<lparr>files := [''example.js'' \<mapsto> ''let x = 1'']\<rparr>))) =
       [HealthCheckPrompt,
        FixPrompt extractIssuesFromComments ''let x = 1'' (fixContext ''example.js'' samplePR)]
   \<and> writes (snd (processFixRequest config ''@fixbot apply''
          (sampleEnv [] (Inr [Some sampleJSON]) (\<lambda>c. Inr [Some ''let x = 1;'']))
          (sampleWorld\<lparr>files := [''example.js'' \<mapsto> ''let x = 1'']\<rparr>))) =
       [(''example.js'', ''let x = 1;'')]
   \<and> comments (snd (processFixRequest config ''@fixbot apply''
          (sampleEnv [] (Inr [Some sampleJSON]) (\<lambda>c. Inr [Some ''let x = 1;'']))
          (sampleWorld\<lparr>files := [''example.js'' \<mapsto> ''let x = 1'']\<rparr>))) =
       [Text (fixSummaryComment 1 1 1)]
   \<and> fixSummaryComment 1 1 1 \<noteq>
       fixComment ''No specific issues found to fix. Please ensure ReviewBot has analyzed the PR first.''"
proof -
  let ?e = "sampleEnv [] (Inr [Some sampleJSON]) (\<lambda>c. Inr [Some ''let x = 1;''])"
  let ?w = "sampleWorld\<lparr>files := [''example.js'' \<mapsto> ''let x = 1'']\<rparr>"
  let ?w1 = "?w\<lparr>requests := requests ?w @ [HealthCheckPrompt]\<rparr>"
  have e: "octokit_pulls_get ?e = Inr samplePR" "octokit_issues_createComment ?e = (\<lambda>c. None)"
    by (simp_all add: sampleEnv_def)
  have p: "parseFixes [Some ''let x = 1;''] = Some ''let x = 1;''"
    by (simp add: parseFixes_def)
  have f: "fixFileIssues ?e ''example.js'' extractIssuesFromComments samplePR ?w1 =
      (Inr \<lparr>success = True, fixesApplied = 1\<rparr>,
       ?w1\<lparr>requests := requests ?w1 @
               [FixPrompt extractIssuesFromComments ''let x = 1'' (fixContext ''example.js'' samplePR)],
            writes := [(''example.js'', ''let x = 1;'')],
            files := [''example.js'' \<mapsto> ''let x = 1;'']\<rparr>)"
    by (simp add: fix_defs sampleEnv_def sampleWorld_def p extractIssuesFromComments_def)
  have run: "processFixRequest config ''@fixbot apply'' ?e ?w =
      (Inr (),
       ?w1\<lparr>requests := requests ?w1 @
               [FixPrompt extractIssuesFromComments ''let x = 1'' (fixContext ''example.js'' samplePR)],
            writes := [(''example.js'', ''let x = 1;'')],
            files := [''example.js'' \<mapsto> ''let x = 1;''],
            comments := [Text (fixSummaryComment 1 1 1)]\<rparr>)"
    using f
    by (simp add: processFixRequest_def processFixRequest_try_def try_catch_def bind_def
        sample_health parse_apply getPullRequest_def lift_def e applySpecificFixes_def
        applySpecificFixes_on_def group_mock entries_mock postFixSummary_run return_def
        extractIssuesFromComments_def[THEN arg_cong, of length] sampleWorld_def)
  have d: "fixSummaryComment 1 1 1 \<noteq>
       fixComment ''No specific issues found to fix. Please ensure ReviewBot has analyzed the PR first.''"
    by (simp add: fixSummaryComment_def fixComment_def nl_def)
  from run d show ?thesis
    by (simp add: parse_apply sampleWorld_def)
qed

end
